theory Spec2Isabelle
  imports Complex_Main "HOL-Library.Word" "HOL-Library.Char_ord" "HOL-Library.List_Lexorder"
    "HOL-Library.Product_Lexorder"
begin

unbundle bit_operations_syntax

section \<open>Python values\<close>

text \<open>
  A content record is a nested Python mapping.  Values are the JSON-shaped Python objects
  the generator puts into a record: \<open>None\<close>, booleans, unbounded integers, strings, lists
  and dictionaries.  A dictionary is an association list in insertion order (Python
  dictionaries keep it, and \<open>.items()\<close> and \<open>json.dump\<close> without \<open>sort_keys\<close> follow it);
  a well-formed dictionary has pairwise distinct keys.  Keys are strings or integers, the
  key types a record built from YAML configuration can carry.  Floats and arbitrary
  objects are outside the model.

  A \<open>string\<close> is a list of code points below 256 (Latin-1); the string methods below
  (\<open>isalnum\<close>, \<open>lower\<close>, \<open>isspace\<close>, \<open>isprintable\<close>) are Python's, restricted to that range.
\<close>

datatype pykey = KStr string | KInt int

datatype pyval =
    PNone
  | PBool bool
  | PInt int
  | PStr string
  | PList "pyval list"
  | PDict "(pykey \<times> pyval) list"

type_synonym pydict = "(pykey \<times> pyval) list"

text \<open>The exceptions of \<open>output_manager.py\<close> and the built-in ones its code can meet.
  The argument is the message, \<open>str(e)\<close>.\<close>

datatype error =
    ValidationError string
  | FileError string
  | OutputError string
  | OSError string
  | TypeError string
  | AttributeError string
  | ValueError string

fun err_str :: "error \<Rightarrow> string" where
  "err_str (ValidationError m) = m"
| "err_str (FileError m) = m"
| "err_str (OutputError m) = m"
| "err_str (OSError m) = m"
| "err_str (TypeError m) = m"
| "err_str (AttributeError m) = m"
| "err_str (ValueError m) = m"

text \<open>Truth value testing (\<open>if not x\<close>, \<open>x or y\<close>).\<close>

fun truthy :: "pyval \<Rightarrow> bool" where
  "truthy PNone = False"
| "truthy (PBool b) = b"
| "truthy (PInt i) = (i \<noteq> 0)"
| "truthy (PStr s) = (s \<noteq> [])"
| "truthy (PList xs) = (xs \<noteq> [])"
| "truthy (PDict kvs) = (kvs \<noteq> [])"

text \<open>\<open>type(x).__name__\<close>, for the messages of \<open>AttributeError\<close> and \<open>TypeError\<close>.\<close>

fun type_name :: "pyval \<Rightarrow> string" where
  "type_name PNone = ''NoneType''"
| "type_name (PBool b) = ''bool''"
| "type_name (PInt i) = ''int''"
| "type_name (PStr s) = ''str''"
| "type_name (PList xs) = ''list''"
| "type_name (PDict kvs) = ''dict''"

subsection \<open>Dictionary operations\<close>

text \<open>\<open>k in d\<close>, \<open>d.get(k, default)\<close>, \<open>d.pop(k, None)\<close> on a dictionary.\<close>

definition dict_has :: "pydict \<Rightarrow> pykey \<Rightarrow> bool" where
  "dict_has d k = (map_of d k \<noteq> None)"

definition dict_get :: "pydict \<Rightarrow> pykey \<Rightarrow> pyval \<Rightarrow> pyval" where
  "dict_get d k dflt = (case map_of d k of None \<Rightarrow> dflt | Some v \<Rightarrow> v)"

definition dict_pop :: "pykey \<Rightarrow> pydict \<Rightarrow> pydict" where
  "dict_pop k d = filter (\<lambda>kv. fst kv \<noteq> k) d"

text \<open>\<open>d[k] = v\<close>: an existing key keeps its position, a new key goes last.\<close>

fun dict_set :: "('k \<times> 'v) list \<Rightarrow> 'k \<Rightarrow> 'v \<Rightarrow> ('k \<times> 'v) list" where
  "dict_set [] k v = [(k, v)]"
| "dict_set ((k', v') # d) k v = (if k' = k then (k, v) # d else (k', v') # dict_set d k v)"

text \<open>Well-formed values: every dictionary, at every depth, has distinct keys.\<close>

fun wf_val :: "pyval \<Rightarrow> bool" where
  "wf_val (PList xs) = list_all wf_val xs"
| "wf_val (PDict kvs) = (distinct (map fst kvs) \<and> list_all (\<lambda>kv. wf_val (snd kv)) kvs)"
| "wf_val _ = True"

section \<open>Strings\<close>

definition isdigit_ascii :: "char \<Rightarrow> bool" where
  "isdigit_ascii c = (let n = (of_char c :: nat) in 48 \<le> n \<and> n \<le> 57)"

text \<open>\<open>str.isalnum\<close> on one code point below 256: the ASCII letters and digits, and in the
  upper half the letters (\<open>0xAA\<close>, \<open>0xB5\<close>, \<open>0xBA\<close>, \<open>0xC0..0xFF\<close> without \<open>0xD7\<close> and
  \<open>0xF7\<close>) and numeric characters (\<open>0xB2\<close>, \<open>0xB3\<close>, \<open>0xB9\<close>, \<open>0xBC..0xBE\<close>).\<close>

definition isalnum :: "char \<Rightarrow> bool" where
  "isalnum c = (let n = (of_char c :: nat) in
     (48 \<le> n \<and> n \<le> 57) \<or> (65 \<le> n \<and> n \<le> 90) \<or> (97 \<le> n \<and> n \<le> 122) \<or>
     n = 170 \<or> n = 178 \<or> n = 179 \<or> n = 181 \<or> n = 185 \<or> n = 186 \<or>
     (188 \<le> n \<and> n \<le> 190) \<or> (192 \<le> n \<and> n \<le> 214) \<or> (216 \<le> n \<and> n \<le> 246) \<or>
     (248 \<le> n \<and> n \<le> 255))"

text \<open>\<open>str.lower\<close> on one code point below 256: \<open>A..Z\<close> and \<open>0xC0..0xDE\<close> without \<open>0xD7\<close>
  move up by 32, everything else stays.\<close>

definition lower_char :: "char \<Rightarrow> char" where
  "lower_char c = (let n = (of_char c :: nat) in
     if (65 \<le> n \<and> n \<le> 90) \<or> (192 \<le> n \<and> n \<le> 222 \<and> n \<noteq> 215) then char_of (n + 32) else c)"

definition lower :: "string \<Rightarrow> string" where
  "lower s = map lower_char s"

text \<open>\<open>str.isspace\<close> on one code point below 256.\<close>

definition isspace :: "char \<Rightarrow> bool" where
  "isspace c = (let n = (of_char c :: nat) in
     (9 \<le> n \<and> n \<le> 13) \<or> (28 \<le> n \<and> n \<le> 32) \<or> n = 133 \<or> n = 160)"

text \<open>\<open>str.strip()\<close>: leading and trailing whitespace removed.\<close>

definition strip :: "string \<Rightarrow> string" where
  "strip s = rev (dropWhile isspace (rev (dropWhile isspace s)))"

text \<open>\<open>sep.join(parts)\<close> on strings.\<close>

fun join :: "string \<Rightarrow> string list \<Rightarrow> string" where
  "join sep [] = []"
| "join sep [x] = x"
| "join sep (x # y # ys) = x @ sep @ join sep (y # ys)"

subsection \<open>\<open>str\<close> and \<open>repr\<close>\<close>

fun digit_char :: "nat \<Rightarrow> char" where
  "digit_char n = char_of (48 + n mod 10)"

function str_nat :: "nat \<Rightarrow> string" where
  "str_nat n = (if n < 10 then [digit_char n] else str_nat (n div 10) @ [digit_char n])"
  by pat_completeness auto
termination
  by (relation "measure (\<lambda>n. n)") auto

definition str_int :: "int \<Rightarrow> string" where
  "str_int i = (if i < 0 then CHR ''-'' # str_nat (nat (- i)) else str_nat (nat i))"

definition hex_digit :: "nat \<Rightarrow> char" where
  "hex_digit n = (if n < 10 then char_of (48 + n) else char_of (87 + n))"

text \<open>\<open>str.isprintable\<close> on one code point below 256.\<close>

definition isprintable :: "char \<Rightarrow> bool" where
  "isprintable c = (let n = (of_char c :: nat) in
     \<not> (n < 32 \<or> (127 \<le> n \<and> n \<le> 160) \<or> n = 173))"

text \<open>\<open>repr\<close> of a string: single quotes, unless the string has a single quote and no
  double quote; backslash, the quote in use, newline, carriage return and tab are
  escaped by a backslash, other unprintable characters as \<open>\xNN\<close>.\<close>

definition repr_char :: "char \<Rightarrow> char \<Rightarrow> string" where
  "repr_char q c =
     (if c = CHR 0x5C then [CHR 0x5C, CHR 0x5C]
      else if c = q then [CHR 0x5C, q]
      else if c = CHR 0x0A then [CHR 0x5C, CHR ''n'']
      else if c = CHR 0x0D then [CHR 0x5C, CHR ''r'']
      else if c = CHR 0x09 then [CHR 0x5C, CHR ''t'']
      else if \<not> isprintable c then
        [CHR 0x5C, CHR ''x'', hex_digit ((of_char c :: nat) div 16), hex_digit ((of_char c :: nat) mod 16)]
      else [c])"

definition repr_str :: "string \<Rightarrow> string" where
  "repr_str s =
     (let q = (if CHR 0x27 \<in> set s \<and> CHR 0x22 \<notin> set s then CHR 0x22 else CHR 0x27)
      in [q] @ concat (map (repr_char q) s) @ [q])"

fun repr_key :: "pykey \<Rightarrow> string" where
  "repr_key (KStr s) = repr_str s"
| "repr_key (KInt i) = str_int i"

fun repr :: "pyval \<Rightarrow> string" where
  "repr PNone = ''None''"
| "repr (PBool b) = (if b then ''True'' else ''False'')"
| "repr (PInt i) = str_int i"
| "repr (PStr s) = repr_str s"
| "repr (PList xs) = ''['' @ join '', '' (map repr xs) @ '']''"
| "repr (PDict kvs) =
     ''{'' @ join '', '' (map (\<lambda>kv. repr_key (fst kv) @ '': '' @ repr (snd kv)) kvs) @ ''}''"

text \<open>\<open>str(x)\<close>, also what an f-string field \<open>{x}\<close> renders: a string is itself, every
  other value its \<open>repr\<close>.\<close>

fun py_str :: "pyval \<Rightarrow> string" where
  "py_str (PStr s) = s"
| "py_str v = repr v"

section \<open>ContentValidator\<close>

definition validate_text :: "pydict \<Rightarrow> error + unit" where
  "validate_text content =
     (if \<not> dict_has content (KStr ''content'') then
        Inl (ValidationError ''Text content missing 'content' field'')
      else if \<not> truthy (dict_get content (KStr ''content'') PNone) then
        Inl (ValidationError ''Text content is empty'')
      else Inr ())"

definition validate_carousel :: "pydict \<Rightarrow> error + unit" where
  "validate_carousel content =
     (if \<not> dict_has content (KStr ''slides'') then
        Inl (ValidationError ''Carousel content missing 'slides' field'')
      else (case dict_get content (KStr ''slides'') PNone of
              PList xs \<Rightarrow> Inr ()
            | _ \<Rightarrow> Inl (ValidationError ''Carousel 'slides' must be a list'')))"

definition validate_poll :: "pydict \<Rightarrow> error + unit" where
  "validate_poll content =
     (if \<not> dict_has content (KStr ''options'') then
        Inl (ValidationError ''Poll content missing 'options' field'')
      else (case dict_get content (KStr ''options'') PNone of
              PList xs \<Rightarrow> Inr ()
            | _ \<Rightarrow> Inl (ValidationError ''Poll 'options' must be a list'')))"

definition validate_newsletter :: "pydict \<Rightarrow> error + unit" where
  "validate_newsletter content =
     (if \<not> dict_has content (KStr ''sections'') then
        Inl (ValidationError ''Newsletter content missing 'sections' field'')
      else (case dict_get content (KStr ''sections'') PNone of
              PDict kvs \<Rightarrow> Inr ()
            | _ \<Rightarrow> Inl (ValidationError ''Newsletter 'sections' must be a dictionary'')))"

definition validate_video_script :: "pydict \<Rightarrow> error + unit" where
  "validate_video_script content =
     (if \<not> dict_has content (KStr ''script'') then
        Inl (ValidationError ''Video script content missing 'script' field'')
      else if \<not> truthy (dict_get content (KStr ''script'') PNone) then
        Inl (ValidationError ''Video script content is empty'')
      else Inr ())"

definition validate_document :: "pydict \<Rightarrow> error + unit" where
  "validate_document content =
     (if \<not> dict_has content (KStr ''sections'') then
        Inl (ValidationError ''Document content missing 'sections' field'')
      else (case dict_get content (KStr ''sections'') PNone of
              PDict kvs \<Rightarrow> Inr ()
            | _ \<Rightarrow> Inl (ValidationError ''Document 'sections' must be a dictionary'')))"

text \<open>The dispatch table of \<open>validate_content\<close>, in the order the source writes it.\<close>

definition validators :: "(string \<times> (pydict \<Rightarrow> error + unit)) list" where
  "validators =
     [(''text'', validate_text),
      (''carousel'', validate_carousel),
      (''poll'', validate_poll),
      (''newsletter'', validate_newsletter),
      (''video_script'', validate_video_script),
      (''document'', validate_document)]"

text \<open>\<open>validate_content\<close> returns nothing and raises on an invalid record: the model
  returns \<open>Inr ()\<close> or the exception.  Its only other effect in the source is logging.\<close>

definition validate_content :: "pyval \<Rightarrow> string \<Rightarrow> error + unit" where
  "validate_content content content_type =
     (case content of
        PDict d \<Rightarrow>
          if d = [] then Inl (ValidationError ''Content is empty'')
          else if \<not> dict_has d (KStr ''metadata'') then
            Inl (ValidationError ''Content missing 'metadata' field'')
          else (case map_of validators content_type of
                  Some validator \<Rightarrow> validator d
                | None \<Rightarrow>
                    Inl (ValidationError (''No validator found for content type: '' @ content_type)))
      | _ \<Rightarrow> Inl (ValidationError ''Content must be a dictionary''))"

section \<open>Filename sanitisation\<close>

text \<open>\<open>_sanitize_filename(text)\<close>: a falsy argument gives \<open>untitled\<close>; otherwise the
  characters of \<open>str(text).lower()\<close> that are not alphanumeric, space, hyphen or
  underscore become underscores, the result is stripped, and an empty result gives
  \<open>untitled\<close>.\<close>

definition safe_char :: "char \<Rightarrow> char" where
  "safe_char x = (if isalnum x \<or> x = CHR '' '' \<or> x = CHR ''-'' \<or> x = CHR ''_'' then x else CHR ''_'')"

definition sanitize_filename :: "pyval \<Rightarrow> string" where
  "sanitize_filename text =
     (if \<not> truthy text then ''untitled''
      else (let joined = strip (map safe_char (lower (py_str text)))
            in if joined = [] then ''untitled'' else joined))"

section \<open>The specification's shape table\<close>

text \<open>The table of required fields as the specification words it (section 3): per kind the
  required field and the shape it asks of the field's value.  These two definitions
  follow the specification, not the source; they are what \<open>validate_content\<close> is
  compared with.\<close>

definition spec_required_field :: "(string \<times> string) list" where
  "spec_required_field =
     [(''text'', ''content''), (''carousel'', ''slides''), (''poll'', ''options''),
      (''newsletter'', ''sections''), (''video_script'', ''script''), (''document'', ''sections'')]"

fun spec_shape :: "string \<Rightarrow> pyval \<Rightarrow> bool" where
  "spec_shape kind (PStr s) = (kind = ''text'' \<and> s \<noteq> [])"
| "spec_shape kind (PList xs) = (kind = ''carousel'' \<or> kind = ''poll'')"
| "spec_shape kind (PDict kvs) =
     (kind = ''newsletter'' \<or> kind = ''document'' \<or> (kind = ''video_script'' \<and> kvs \<noteq> []))"
| "spec_shape kind _ = False"

definition spec_valid :: "pyval \<Rightarrow> string \<Rightarrow> bool" where
  "spec_valid content kind =
     (case content of
        PDict d \<Rightarrow>
          d \<noteq> [] \<and> dict_has d (KStr ''metadata'') \<and>
          (case map_of spec_required_field kind of
             None \<Rightarrow> False
           | Some f \<Rightarrow> (case map_of d (KStr f) of None \<Rightarrow> False | Some v \<Rightarrow> spec_shape kind v))
      | _ \<Rightarrow> False)"

text \<open>A result that is an exception of class \<open>ValidationError\<close>.\<close>

definition is_validation_error :: "error + unit \<Rightarrow> bool" where
  "is_validation_error r = (case r of Inl (ValidationError m) \<Rightarrow> True | _ \<Rightarrow> False)"

section \<open>JSON\<close>

text \<open>
  \<open>json.dumps(v)\<close> with the default separators \<open>', '\<close> and \<open>': '\<close> and the default
  \<open>ensure_ascii=True\<close>: inside a string the quote and the backslash are escaped, the
  control characters have their short escapes or \<open>\u00XX\<close>, and every code point
  outside \<open>0x20..0x7E\<close> is written \<open>\u00XX\<close>.
\<close>

definition json_escape_char :: "char \<Rightarrow> string" where
  "json_escape_char c =
     (let n = (of_char c :: nat) in
      if c = CHR 0x22 then [CHR 0x5C, CHR 0x22]
      else if c = CHR 0x5C then [CHR 0x5C, CHR 0x5C]
      else if c = CHR 0x0A then [CHR 0x5C, CHR ''n'']
      else if c = CHR 0x0D then [CHR 0x5C, CHR ''r'']
      else if c = CHR 0x09 then [CHR 0x5C, CHR ''t'']
      else if c = CHR 0x08 then [CHR 0x5C, CHR ''b'']
      else if c = CHR 0x0C then [CHR 0x5C, CHR ''f'']
      else if n < 32 \<or> 126 < n then
        [CHR 0x5C, CHR ''u'', CHR ''0'', CHR ''0'', hex_digit (n div 16), hex_digit (n mod 16)]
      else [c])"

definition json_str :: "string \<Rightarrow> string" where
  "json_str s = [CHR 0x22] @ concat (map json_escape_char s) @ [CHR 0x22]"

text \<open>A dictionary key as JSON writes it: a string key as it is, an integer key as its
  decimal digits.\<close>

fun key_text :: "pykey \<Rightarrow> string" where
  "key_text (KStr s) = s"
| "key_text (KInt i) = str_int i"

text \<open>
  \<open>sort_keys=True\<close> sorts the items of every dictionary with Python's \<open><\<close> on the keys
  (the keys of a dictionary are distinct, so the values are never compared): integers
  by value, strings by code points, and \<open>TypeError\<close> when an integer key meets a string
  key.  \<open>key_ord\<close> maps a key into a linear order that agrees with \<open><\<close> within each of
  the two key types.
\<close>

fun key_ord :: "pykey \<Rightarrow> nat \<times> int \<times> string" where
  "key_ord (KInt i) = (0, i, [])"
| "key_ord (KStr s) = (1, 0, s)"

fun is_int_key :: "pykey \<Rightarrow> bool" where
  "is_int_key (KInt i) = True"
| "is_int_key (KStr s) = False"

definition mixed_keys :: "pydict \<Rightarrow> bool" where
  "mixed_keys d = (list_ex (\<lambda>kv. is_int_key (fst kv)) d \<and> list_ex (\<lambda>kv. \<not> is_int_key (fst kv)) d)"

fun sort_fails :: "pyval \<Rightarrow> bool" where
  "sort_fails (PList xs) = list_ex sort_fails xs"
| "sort_fails (PDict kvs) = (mixed_keys kvs \<or> list_ex (\<lambda>kv. sort_fails (snd kv)) kvs)"
| "sort_fails v = False"

definition sort_items :: "pydict \<Rightarrow> pydict" where
  "sort_items d = sort_key (\<lambda>kv. key_ord (fst kv)) d"

text \<open>The text \<open>json.dumps\<close> produces; \<open>sk\<close> stands for \<open>sort_keys\<close>.\<close>

function json_text :: "bool \<Rightarrow> pyval \<Rightarrow> string" where
  "json_text sk PNone = ''null''"
| "json_text sk (PBool b) = (if b then ''true'' else ''false'')"
| "json_text sk (PInt i) = str_int i"
| "json_text sk (PStr s) = json_str s"
| "json_text sk (PList xs) = ''['' @ join '', '' (map (json_text sk) xs) @ '']''"
| "json_text sk (PDict kvs) =
     ''{'' @ join '', ''
        (map (\<lambda>kv. json_str (key_text (fst kv)) @ '': '' @ json_text sk (snd kv))
           (if sk then sort_items kvs else kvs)) @ ''}''"
  by pat_completeness auto
termination
proof (relation "measure (\<lambda>p. size (snd p))")
  show "wf (measure (\<lambda>p. size (snd p)))" by simp
next
  fix sk :: bool and xs :: "pyval list" and x :: pyval
  assume "x \<in> set xs"
  then have "size x \<le> size_list size xs"
    by (rule size_list_estimation') simp
  then show "((sk, x), sk, PList xs) \<in> measure (\<lambda>p. size (snd p))"
    by simp
next
  fix sk :: bool and kvs :: pydict and x :: "pykey \<times> pyval"
  assume "x \<in> set (if sk then sort_items kvs else kvs)"
  then have "x \<in> set kvs"
    by (simp add: sort_items_def split: if_splits)
  then have "size_prod (\<lambda>_. 0) size x \<le> size_list (size_prod (\<lambda>_. 0) size) kvs"
    by (rule size_list_estimation') simp
  then show "((sk, snd x), sk, PDict kvs) \<in> measure (\<lambda>p. size (snd p))"
    by (cases x) simp
qed

definition json_dumps :: "bool \<Rightarrow> pyval \<Rightarrow> error + string" where
  "json_dumps sk v =
     (if sk \<and> sort_fails v
      then Inl (TypeError (CHR 0x27 # ''<' not supported between instances of 'int' and 'str'' @ [CHR 0x27]))
      else Inr (json_text sk v))"

text \<open>
  What \<open>json.load\<close> reads back from a file \<open>json.dump\<close> wrote (with \<open>indent=2\<close> and
  \<open>ensure_ascii=False\<close>, which change the text and not the document): the same value,
  but every key has become its string, and where two keys have become the same string
  the first keeps its place and the last gives the value.  The file's text itself is
  not modelled; a JSON file holds this document.
\<close>

fun build_dict :: "pydict \<Rightarrow> pydict \<Rightarrow> pydict" where
  "build_dict acc [] = acc"
| "build_dict acc (kv # kvs) = build_dict (dict_set acc (fst kv) (snd kv)) kvs"

fun json_doc :: "pyval \<Rightarrow> pyval" where
  "json_doc (PList xs) = PList (map json_doc xs)"
| "json_doc (PDict kvs) =
     PDict (build_dict [] (map (\<lambda>kv. (KStr (key_text (fst kv)), json_doc (snd kv))) kvs))"
| "json_doc v = v"

section \<open>SHA-256\<close>

text \<open>
  \<open>hashlib.sha256(data).hexdigest()\<close>, the function of FIPS 180-4.  A 32-bit word is an
  \<open>int\<close> in \<open>[0, 2^32)\<close> with the wrap-around written out (\<open>mod 2^32\<close>); a byte is an
  \<open>int\<close> in \<open>[0, 256)\<close>.
\<close>

definition add32 :: "int \<Rightarrow> int \<Rightarrow> int" where
  "add32 x y = (x + y) mod 4294967296"

text \<open>Rotation to the right by \<open>n\<close> bits is \<open>rot (2^n) (2^(32-n))\<close>: the high bits move
  down by division, the low bits move up by multiplication, modulo \<open>2^32\<close>.\<close>

definition rot :: "int \<Rightarrow> int \<Rightarrow> int \<Rightarrow> int" where
  "rot d m x = (x div d + x * m) mod 4294967296"

definition bsig0 :: "int \<Rightarrow> int" where
  "bsig0 x = rot 0x4 0x40000000 x XOR rot 0x2000 0x80000 x XOR rot 0x400000 0x400 x"

definition bsig1 :: "int \<Rightarrow> int" where
  "bsig1 x = rot 0x40 0x4000000 x XOR rot 0x800 0x200000 x XOR rot 0x2000000 0x80 x"

definition ssig0 :: "int \<Rightarrow> int" where
  "ssig0 x = rot 0x80 0x2000000 x XOR rot 0x40000 0x4000 x XOR x div 0x8"

definition ssig1 :: "int \<Rightarrow> int" where
  "ssig1 x = rot 0x20000 0x8000 x XOR rot 0x80000 0x2000 x XOR x div 0x400"

definition ch :: "int \<Rightarrow> int \<Rightarrow> int \<Rightarrow> int" where
  "ch x y z = (x AND y) XOR ((4294967295 - x) AND z)"

definition maj :: "int \<Rightarrow> int \<Rightarrow> int \<Rightarrow> int" where
  "maj x y z = (x AND y) XOR (x AND z) XOR (y AND z)"

text \<open>The round constants and the initial hash value of the standard, in decimal.\<close>

definition K256 :: "int list" where
  "K256 =
    [1116352408, 1899447441, 3049323471, 3921009573, 961987163, 1508970993,
     2453635748, 2870763221, 3624381080, 310598401, 607225278, 1426881987,
     1925078388, 2162078206, 2614888103, 3248222580, 3835390401, 4022224774,
     264347078, 604807628, 770255983, 1249150122, 1555081692, 1996064986,
     2554220882, 2821834349, 2952996808, 3210313671, 3336571891, 3584528711,
     113926993, 338241895, 666307205, 773529912, 1294757372, 1396182291,
     1695183700, 1986661051, 2177026350, 2456956037, 2730485921, 2820302411,
     3259730800, 3345764771, 3516065817, 3600352804, 4094571909, 275423344,
     430227734, 506948616, 659060556, 883997877, 958139571, 1322822218,
     1537002063, 1747873779, 1955562222, 2024104815, 2227730452, 2361852424,
     2428436474, 2756734187, 3204031479, 3329325298]"

definition H256 :: "int list" where
  "H256 = [1779033703, 3144134277, 1013904242, 2773480762,
           1359893119, 2600822924, 528734635, 1541459225]"

text \<open>The message schedule: from a window of sixteen words, \<open>n\<close> steps each emit the
  oldest word and append \<open>W(t) = ssig1 W(t-2) + W(t-7) + ssig0 W(t-15) + W(t-16)\<close>; the
  window that is left follows.\<close>

fun schedule :: "nat \<Rightarrow> int list \<Rightarrow> int list" where
  "schedule (Suc n) [a0, a1, a2, a3, a4, a5, a6, a7, a8, a9, a10, a11, a12, a13, a14, a15] =
     a0 # schedule n [a1, a2, a3, a4, a5, a6, a7, a8, a9, a10, a11, a12, a13, a14, a15,
                      add32 (add32 (ssig1 a14) a9) (add32 (ssig0 a1) a0)]"
| "schedule n ws = ws"

text \<open>One round of the compression function on the working variables \<open>a..h\<close>.\<close>

fun sha_round :: "int list \<Rightarrow> int \<Rightarrow> int \<Rightarrow> int list" where
  "sha_round [a, b, c, d, e, f, g, h] k w =
     (let t1 = add32 (add32 (add32 h (bsig1 e)) (add32 (ch e f g) k)) w;
          t2 = add32 (bsig0 a) (maj a b c)
      in [add32 t1 t2, a, b, c, add32 d t1, e, f, g])"
| "sha_round s k w = s"

fun sha_rounds :: "int list \<Rightarrow> int list \<Rightarrow> int list \<Rightarrow> int list" where
  "sha_rounds s (k # ks) (w # ws) = sha_rounds (sha_round s k w) ks ws"
| "sha_rounds s ks ws = s"

text \<open>Sixteen big-endian words from the sixty-four bytes of a block.\<close>

fun be32 :: "int list \<Rightarrow> int list" where
  "be32 (a # b # c # d # bs) = (a * 0x1000000 + b * 0x10000 + c * 0x100 + d) # be32 bs"
| "be32 bs = []"

definition compress :: "int list \<Rightarrow> int list \<Rightarrow> int list" where
  "compress hs block = map2 add32 hs (sha_rounds hs K256 (schedule 48 (be32 block)))"

text \<open>Padding: the byte \<open>0x80\<close>, zero bytes up to 56 modulo 64, and the bit length as
  eight big-endian bytes.\<close>

definition pad :: "int list \<Rightarrow> int list" where
  "pad m =
     (let l = length m; bits = int (8 * l)
      in m @ [0x80] @ replicate ((119 - l mod 64) mod 64) 0 @
         [(bits div 0x100000000000000) mod 256, (bits div 0x1000000000000) mod 256,
          (bits div 0x10000000000) mod 256, (bits div 0x100000000) mod 256,
          (bits div 0x1000000) mod 256, (bits div 0x10000) mod 256,
          (bits div 0x100) mod 256, bits mod 256])"

fun sha_blocks :: "nat \<Rightarrow> int list \<Rightarrow> int list \<Rightarrow> int list" where
  "sha_blocks 0 hs bs = hs"
| "sha_blocks (Suc n) hs bs = sha_blocks n (compress hs (take 64 bs)) (drop 64 bs)"

definition sha256 :: "int list \<Rightarrow> int list" where
  "sha256 m = (let p = pad m in sha_blocks (length p div 64) H256 p)"

definition hex32 :: "int \<Rightarrow> string" where
  "hex32 w = map (\<lambda>d. hex_digit (nat ((w div d) mod 16)))
               [0x10000000, 0x1000000, 0x100000, 0x10000, 0x1000, 0x100, 0x10, 0x1]"

definition hexdigest :: "int list \<Rightarrow> string" where
  "hexdigest ws = concat (map hex32 ws)"

text \<open>\<open>s.encode()\<close>: UTF-8.  A code point below 128 is one byte, one from 128 to 255 is
  two.\<close>

definition utf8_char :: "char \<Rightarrow> int list" where
  "utf8_char c = (let n = (of_char c :: int) in
     if n < 128 then [n] else [192 + n div 64, 128 + n mod 64])"

definition encode_utf8 :: "string \<Rightarrow> int list" where
  "encode_utf8 s = concat (map utf8_char s)"

definition sha256_hex :: "string \<Rightarrow> string" where
  "sha256_hex s = hexdigest (sha256 (encode_utf8 s))"

section \<open>ChecksumEngine\<close>

text \<open>\<open>_normalize_content\<close>: a value that is not a dictionary is returned as it is; of a
  dictionary a shallow copy is made and the two volatile fields are popped from the
  copy.\<close>

definition volatile_fields :: "pykey list" where
  "volatile_fields = [KStr ''generation_time'', KStr ''metadata'']"

definition normalize_content :: "pyval \<Rightarrow> pyval" where
  "normalize_content content =
     (case content of
        PDict d \<Rightarrow> PDict (foldl (\<lambda>normalized field. dict_pop field normalized) d volatile_fields)
      | _ \<Rightarrow> content)"

text \<open>\<open>_compute_checksum\<close>: the SHA-256 hex digest of the sorted-key serialisation of the
  normalised content; an exception of \<open>json.dumps\<close> is logged and raised again.\<close>

definition compute_checksum :: "pyval \<Rightarrow> error + string" where
  "compute_checksum content =
     (case json_dumps True (normalize_content content) of
        Inl e \<Rightarrow> Inl e
      | Inr serialized \<Rightarrow> Inr (sha256_hex serialized))"

section \<open>ContentFormatter\<close>

text \<open>Sequencing of fallible steps: the first exception ends the computation.\<close>

definition then_do :: "error + 'a \<Rightarrow> ('a \<Rightarrow> error + 'b) \<Rightarrow> error + 'b" where
  "then_do r f = (case r of Inl e \<Rightarrow> Inl e | Inr x \<Rightarrow> f x)"

definition quoted :: "string \<Rightarrow> string" where
  "quoted s = [CHR 0x27] @ s @ [CHR 0x27]"

definition no_attribute :: "pyval \<Rightarrow> string \<Rightarrow> error" where
  "no_attribute v a = AttributeError (quoted (type_name v) @ '' object has no attribute '' @ quoted a)"

text \<open>\<open>c.get(key, default)\<close> and \<open>c.items()\<close> on an arbitrary value: only a dictionary has
  the methods.\<close>

definition py_get :: "pyval \<Rightarrow> string \<Rightarrow> pyval \<Rightarrow> error + pyval" where
  "py_get c k dflt =
     (case c of PDict d \<Rightarrow> Inr (dict_get d (KStr k) dflt) | _ \<Rightarrow> Inl (no_attribute c ''get''))"

definition py_items :: "pyval \<Rightarrow> error + pydict" where
  "py_items c = (case c of PDict d \<Rightarrow> Inr d | _ \<Rightarrow> Inl (no_attribute c ''items''))"

fun key_val :: "pykey \<Rightarrow> pyval" where
  "key_val (KStr s) = PStr s"
| "key_val (KInt i) = PInt i"

text \<open>Iteration (\<open>for x in v\<close>): the elements of a list, the characters of a string, the
  keys of a dictionary; other values are not iterable.\<close>

definition py_iter :: "pyval \<Rightarrow> error + pyval list" where
  "py_iter v =
     (case v of
        PList xs \<Rightarrow> Inr xs
      | PStr s \<Rightarrow> Inr (map (\<lambda>c. PStr [c]) s)
      | PDict d \<Rightarrow> Inr (map (\<lambda>kv. key_val (fst kv)) d)
      | _ \<Rightarrow> Inl (TypeError (quoted (type_name v) @ '' object is not iterable'')))"

text \<open>\<open>sep.join(parts)\<close> on arbitrary values: every part must be a string.\<close>

fun str_parts :: "nat \<Rightarrow> pyval list \<Rightarrow> error + string list" where
  "str_parts i [] = Inr []"
| "str_parts i (PStr s # vs) = then_do (str_parts (Suc i) vs) (\<lambda>ss. Inr (s # ss))"
| "str_parts i (v # vs) =
     Inl (TypeError (''sequence item '' @ str_nat i @ '': expected str instance, '' @
                     type_name v @ '' found''))"

definition join_vals :: "string \<Rightarrow> pyval list \<Rightarrow> error + string" where
  "join_vals sep vs = then_do (str_parts 0 vs) (\<lambda>ss. Inr (join sep ss))"

definition nl :: string where
  "nl = [CHR 0x0A]"

text \<open>\<open>format_safely\<close>: the rendering of \<open>method\<close>, or, when \<open>method\<close> raises or renders
  nothing, the error banner followed by \<open>str(content)\<close>.\<close>

definition error_rendering :: "pyval \<Rightarrow> string" where
  "error_rendering content =
     ''# Error Formatting Content'' @ nl @ nl @ ''Original content:'' @ nl @ py_str content"

definition format_safely :: "pyval \<Rightarrow> (pyval \<Rightarrow> error + string) \<Rightarrow> string" where
  "format_safely content method =
     (case method content of
        Inr result \<Rightarrow> if result = [] then error_rendering content else result
      | Inl e \<Rightarrow> error_rendering content)"

text \<open>The inner \<open>format_method\<close> of each formatter.\<close>

definition text_method :: "pyval \<Rightarrow> error + string" where
  "text_method c = then_do (py_get c ''content'' (PStr [])) (\<lambda>v. Inr (py_str v))"

definition poll_method :: "pyval \<Rightarrow> error + string" where
  "poll_method c =
     then_do (py_get c ''hook'' (PStr ''Poll'')) (\<lambda>hook.
     then_do (py_get c ''context'' (PStr [])) (\<lambda>context.
     then_do (py_get c ''options'' (PList [])) (\<lambda>options.
     then_do (py_iter options) (\<lambda>opts.
       join_vals (nl @ nl)
         [PStr (''# '' @ py_str hook), PStr ''## Context'', context, PStr ''## Options'',
          PStr (join nl (map (\<lambda>opt. ''- '' @ py_str opt) opts))]))))"

text \<open>The slides of a carousel, numbered from \<open>i\<close>: two parts per slide.\<close>

fun slide_parts :: "nat \<Rightarrow> pyval list \<Rightarrow> error + pyval list" where
  "slide_parts i [] = Inr []"
| "slide_parts i (slide # slides) =
     then_do (py_get slide ''title'' (PStr (''Slide '' @ str_nat i))) (\<lambda>title.
     then_do (py_get slide ''content'' (PStr [])) (\<lambda>content_text.
     then_do (slide_parts (Suc i) slides) (\<lambda>rest.
       Inr ([PStr (nl @ ''## Slide '' @ str_nat i @ '': '' @ py_str title), content_text] @ rest))))"

definition cta_parts :: "pyval \<Rightarrow> pyval list" where
  "cta_parts cta = (if truthy cta then [PStr (nl @ ''## Call to Action''), cta] else [])"

definition carousel_method :: "pyval \<Rightarrow> error + string" where
  "carousel_method c =
     then_do (py_get c ''hook'' (PStr ''Carousel'')) (\<lambda>hook.
     then_do (py_get c ''slides'' (PList [])) (\<lambda>slides.
     then_do (py_iter slides) (\<lambda>sl.
     then_do (slide_parts 1 sl) (\<lambda>parts.
     then_do (py_get c ''cta'' PNone) (\<lambda>cta.
       join_vals (nl @ nl) ([PStr (''# '' @ py_str hook @ nl)] @ parts @ cta_parts cta))))))"

definition section_parts :: "pydict \<Rightarrow> pyval list" where
  "section_parts d =
     concat (map (\<lambda>kv. [PStr (nl @ ''## '' @ key_text (fst kv)), PStr (py_str (snd kv))]) d)"

definition newsletter_method :: "pyval \<Rightarrow> error + string" where
  "newsletter_method c =
     then_do (py_get c ''hook'' (PStr ''Newsletter'')) (\<lambda>hook.
     then_do (py_get c ''sections'' (PDict [])) (\<lambda>sections.
     then_do (py_items sections) (\<lambda>items.
     then_do (py_get c ''cta'' PNone) (\<lambda>cta.
       join_vals (nl @ nl) ([PStr (''# '' @ py_str hook)] @ section_parts items @ cta_parts cta)))))"

definition video_script_method :: "pyval \<Rightarrow> error + string" where
  "video_script_method c =
     then_do (py_get c ''hook'' (PStr ''Video Script'')) (\<lambda>hook.
     then_do (py_get c ''duration'' (PInt 0)) (\<lambda>duration.
     then_do (py_get c ''script'' (PDict [])) (\<lambda>script.
     then_do (py_items script) (\<lambda>items.
       join_vals (nl @ nl)
         ([PStr (''# '' @ py_str hook), PStr (''Duration: '' @ py_str duration @ '' minutes'')]
          @ section_parts items)))))"

definition document_method :: "pyval \<Rightarrow> error + string" where
  "document_method c =
     then_do (py_get c ''hook'' (PStr ''Document'')) (\<lambda>hook.
     then_do (py_get c ''doc_type'' (PStr ''unknown'')) (\<lambda>doc_type.
     then_do (py_get c ''sections'' (PDict [])) (\<lambda>sections.
     then_do (py_items sections) (\<lambda>items.
       join_vals (nl @ nl)
         ([PStr (''# '' @ py_str hook), PStr (''Document Type: '' @ py_str doc_type)]
          @ section_parts items)))))"

text \<open>The instance's \<open>FORMATTERS\<close> table: the bound methods of the content formatter,
  each its \<open>format_method\<close> under \<open>format_safely\<close>.\<close>

definition FORMATTERS :: "(string \<times> (pyval \<Rightarrow> string)) list" where
  "FORMATTERS =
     [(''text'', \<lambda>c. format_safely c text_method),
      (''carousel'', \<lambda>c. format_safely c carousel_method),
      (''poll'', \<lambda>c. format_safely c poll_method),
      (''newsletter'', \<lambda>c. format_safely c newsletter_method),
      (''video_script'', \<lambda>c. format_safely c video_script_method),
      (''document'', \<lambda>c. format_safely c document_method)]"

section \<open>The world outside: files, faults, time\<close>

text \<open>
  A directory is either a scratch directory made by \<open>tempfile.mkdtemp\<close> (numbered, so a
  new one is fresh) or a partition \<open>base/date/kind\<close> under an output or backup root.  A
  path is a directory and a file name.
\<close>

datatype dir = TempDir nat | OutDir string string string

type_synonym path = "dir \<times> string"

fun dir_str :: "dir \<Rightarrow> string" where
  "dir_str (TempDir n) = ''/tmp/tmp'' @ str_nat n"
| "dir_str (OutDir base date kind) = base @ ''/'' @ date @ ''/'' @ kind"

definition path_str :: "path \<Rightarrow> string" where
  "path_str p = dir_str (fst p) @ ''/'' @ snd p"

text \<open>What a file holds: the document of a JSON file (see \<open>json_doc\<close>), the text of a text
  file, the value dumped into a YAML file.\<close>

datatype fdata = JsonFile pyval | TextFile string | YamlFile pyval

text \<open>What the code can observe of its run: \<open>Attempt i\<close> marks the start of iteration \<open>i\<close>
  of the retry loop, \<open>Slept d\<close> a call \<open>time.sleep(d)\<close>.\<close>

datatype event = Attempt nat | Slept rat

text \<open>
  The world: the files; the faults to come, one entry for each file-system operation in
  the order the operations are made (\<open>True\<close>: the operation raises \<open>OSError\<close> and changes
  nothing; an exhausted list means no more faults); the clock in seconds (exact
  rationals stand for the floats of \<open>time.time()\<close>); the number of the next scratch
  directory; the events so far.  Logging is not modelled.
\<close>

record world =
  files :: "path \<Rightarrow> fdata option"
  faults :: "bool list"
  clock :: rat
  next_tmp :: nat
  trace :: "event list"

definition take_fault :: "world \<Rightarrow> bool \<times> world" where
  "take_fault w = (case faults w of [] \<Rightarrow> (False, w) | f # fs \<Rightarrow> (f, w\<lparr>faults := fs\<rparr>))"

definition io_error :: error where
  "io_error = OSError ''[Errno 5] Input/output error''"

definition no_such_file :: "path \<Rightarrow> error" where
  "no_such_file p = OSError (''[Errno 2] No such file or directory: '' @ quoted (path_str p))"

definition fs_write :: "path \<Rightarrow> fdata \<Rightarrow> world \<Rightarrow> (error + unit) \<times> world" where
  "fs_write p data w =
     (case take_fault w of
        (True, w1) \<Rightarrow> (Inl io_error, w1)
      | (False, w1) \<Rightarrow> (Inr (), w1\<lparr>files := (files w1)(p \<mapsto> data)\<rparr>))"

definition fs_read :: "path \<Rightarrow> world \<Rightarrow> (error + fdata) \<times> world" where
  "fs_read p w =
     (case take_fault w of
        (True, w1) \<Rightarrow> (Inl io_error, w1)
      | (False, w1) \<Rightarrow>
          (case files w1 p of None \<Rightarrow> (Inl (no_such_file p), w1) | Some data \<Rightarrow> (Inr data, w1)))"

text \<open>\<open>shutil.move(src, dst)\<close>: the file leaves \<open>src\<close> and is at \<open>dst\<close>.\<close>

definition fs_move :: "path \<Rightarrow> path \<Rightarrow> world \<Rightarrow> (error + unit) \<times> world" where
  "fs_move src dst w =
     (case take_fault w of
        (True, w1) \<Rightarrow> (Inl io_error, w1)
      | (False, w1) \<Rightarrow>
          (case files w1 src of
             None \<Rightarrow> (Inl (no_such_file src), w1)
           | Some data \<Rightarrow> (Inr (), w1\<lparr>files := ((files w1)(src := None))(dst \<mapsto> data)\<rparr>)))"

text \<open>\<open>shutil.copy2(src, dst)\<close>; copying a file onto itself raises \<open>SameFileError\<close>, an
  \<open>OSError\<close>.\<close>

definition fs_copy :: "path \<Rightarrow> path \<Rightarrow> world \<Rightarrow> (error + unit) \<times> world" where
  "fs_copy src dst w =
     (case take_fault w of
        (True, w1) \<Rightarrow> (Inl io_error, w1)
      | (False, w1) \<Rightarrow>
          (case files w1 src of
             None \<Rightarrow> (Inl (no_such_file src), w1)
           | Some data \<Rightarrow>
               if src = dst
               then (Inl (OSError (quoted (path_str src) @ '' and '' @ quoted (path_str dst) @
                                   '' are the same file'')), w1)
               else (Inr (), w1\<lparr>files := (files w1)(dst \<mapsto> data)\<rparr>)))"

text \<open>\<open>mkdir(parents=True, exist_ok=True)\<close>: only the environment can make it fail.\<close>

definition fs_mkdir :: "dir \<Rightarrow> world \<Rightarrow> (error + unit) \<times> world" where
  "fs_mkdir d w =
     (case take_fault w of (True, w1) \<Rightarrow> (Inl io_error, w1) | (False, w1) \<Rightarrow> (Inr (), w1))"

definition fs_mkdtemp :: "world \<Rightarrow> (error + dir) \<times> world" where
  "fs_mkdtemp w =
     (case take_fault w of
        (True, w1) \<Rightarrow> (Inl io_error, w1)
      | (False, w1) \<Rightarrow> (Inr (TempDir (next_tmp w1)), w1\<lparr>next_tmp := Suc (next_tmp w1)\<rparr>))"

text \<open>\<open>shutil.rmtree(d)\<close>: every file of the directory goes.\<close>

definition fs_rmtree :: "dir \<Rightarrow> world \<Rightarrow> (error + unit) \<times> world" where
  "fs_rmtree d w =
     (case take_fault w of
        (True, w1) \<Rightarrow> (Inl io_error, w1)
      | (False, w1) \<Rightarrow> (Inr (), w1\<lparr>files := (\<lambda>p. if fst p = d then None else files w1 p)\<rparr>))"

definition path_exists :: "path \<Rightarrow> world \<Rightarrow> bool" where
  "path_exists p w = (files w p \<noteq> None)"

definition time_sleep :: "rat \<Rightarrow> world \<Rightarrow> world" where
  "time_sleep d w = w\<lparr>clock := clock w + d, trace := trace w @ [Slept d]\<rparr>"

text \<open>\<open>datetime.now().strftime(...)\<close> for the two formats the code uses, \<open>%Y-%m-%d\<close> and
  \<open>%Y%m%d_%H%M%S\<close>.  The calendar is not modelled: the two renderings of a clock value
  are parameters of the manager.\<close>

record manager =
  base_dir :: string
  backup_dir :: "string option"
  last_save_time :: rat
  strftime_date :: "rat \<Rightarrow> string"
  strftime_stamp :: "rat \<Rightarrow> string"

section \<open>RetryExecutor\<close>

definition MAX_RETRIES :: nat where
  "MAX_RETRIES = 3"

text \<open>
  \<open>_retry_operation\<close>: the loop \<open>for attempt in range(MAX_RETRIES)\<close>.  An attempt that
  returns ends the loop with its result; one that raises is raised again when it is the
  last, and otherwise followed by \<open>time.sleep(2 ** attempt)\<close>.  A loop that runs out
  returns \<open>None\<close>.
\<close>

fun retry_attempts ::
  "nat list \<Rightarrow> (world \<Rightarrow> (error + 'a) \<times> world) \<Rightarrow> world \<Rightarrow> (error + 'a option) \<times> world" where
  "retry_attempts [] operation w = (Inr None, w)"
| "retry_attempts (attempt # rest) operation w =
     (case operation (w\<lparr>trace := trace w @ [Attempt attempt]\<rparr>) of
        (Inr result, w1) \<Rightarrow> (Inr (Some result), w1)
      | (Inl e, w1) \<Rightarrow>
          if attempt = MAX_RETRIES - 1 then (Inl e, w1)
          else retry_attempts rest operation (time_sleep (2 ^ attempt) w1))"

definition retry_operation ::
  "(world \<Rightarrow> (error + 'a) \<times> world) \<Rightarrow> world \<Rightarrow> (error + 'a option) \<times> world" where
  "retry_operation operation w = retry_attempts [0..<MAX_RETRIES] operation w"

section \<open>OutputManager\<close>

definition MAX_CONTENT_SIZE :: nat where
  "MAX_CONTENT_SIZE = 10 * 1024 * 1024"

definition RATE_LIMIT_INTERVAL :: rat where
  "RATE_LIMIT_INTERVAL = 1"

text \<open>The tag-to-path dictionaries the manager passes around, in insertion order.\<close>

type_synonym paths = "(string \<times> path) list"

text \<open>\<open>raise Cls(f"prefix{e}")\<close> in an \<open>except Exception as e\<close> clause.\<close>

definition reraise :: "(string \<Rightarrow> error) \<Rightarrow> string \<Rightarrow> error \<Rightarrow> error" where
  "reraise cls prefix e = cls (prefix @ err_str e)"

definition get_content_dir :: "manager \<Rightarrow> string \<Rightarrow> world \<Rightarrow> (error + dir) \<times> world" where
  "get_content_dir m content_type w =
     (let content_dir = OutDir (base_dir m) (strftime_date m (clock w))
                               (sanitize_filename (PStr content_type))
      in case fs_mkdir content_dir w of
           (Inl e, w1) \<Rightarrow> (Inl (reraise FileError ''Failed to create content directory: '' e), w1)
         | (Inr u, w1) \<Rightarrow> (Inr content_dir, w1))"

definition save_json :: "pyval \<Rightarrow> path \<Rightarrow> world \<Rightarrow> (error + unit) \<times> world" where
  "save_json content p w = fs_write p (JsonFile (json_doc content)) w"

definition save_yaml :: "pyval \<Rightarrow> path \<Rightarrow> world \<Rightarrow> (error + unit) \<times> world" where
  "save_yaml content p w = fs_write p (YamlFile content) w"

text \<open>
  The fallback of \<open>_save_formatted\<close> for a kind without formatter is the plain function
  \<open>ContentFormatter.text\<close> taken from the class, not from an instance.  Called as
  \<open>formatter(content)\<close> it receives the record as \<open>self\<close> and no \<open>content\<close>, which Python
  rejects with this \<open>TypeError\<close> before any formatting is done.
\<close>

definition unbound_text_call :: error where
  "unbound_text_call =
     TypeError (''ContentFormatter.text() missing 1 required positional argument: '' @
                quoted ''content'')"

definition apply_formatter :: "pyval \<Rightarrow> string \<Rightarrow> error + string" where
  "apply_formatter content content_type =
     (case map_of FORMATTERS content_type of
        Some formatter \<Rightarrow> Inr (formatter content)
      | None \<Rightarrow> Inl unbound_text_call)"

definition save_formatted ::
  "pyval \<Rightarrow> string \<Rightarrow> dir \<Rightarrow> string \<Rightarrow> world \<Rightarrow> (error + path) \<times> world" where
  "save_formatted content content_type content_dir base_filename w =
     (case apply_formatter content content_type of
        Inl e \<Rightarrow> (Inl (reraise OutputError ''Content formatting failed: '' e), w)
      | Inr formatted_content \<Rightarrow>
          (let ext = (if content_type \<noteq> ''text'' then ''.md'' else ''.txt'');
               p = (content_dir, base_filename @ ext)
           in case fs_mkdir (fst p) w of
                (Inl e, w1) \<Rightarrow> (Inl (reraise OutputError ''Content formatting failed: '' e), w1)
              | (Inr u, w1) \<Rightarrow>
                  (case retry_operation (fs_write p (TextFile formatted_content)) w1 of
                     (Inl e, w2) \<Rightarrow>
                       (Inl (reraise OutputError ''Content formatting failed: '' e), w2)
                   | (Inr r, w2) \<Rightarrow> (Inr p, w2))))"

definition save_all_formats ::
  "pyval \<Rightarrow> string \<Rightarrow> dir \<Rightarrow> string \<Rightarrow> world \<Rightarrow> (error + paths) \<times> world" where
  "save_all_formats content content_type temp_dir base_filename w =
     (let json_path = (temp_dir, base_filename @ ''.json'');
          metadata_path = (temp_dir, base_filename @ ''_meta.yaml'');
          failed = reraise OutputError ''Failed to save content formats: ''
      in case retry_operation (save_json content json_path) w of
           (Inl e, w1) \<Rightarrow> (Inl (failed e), w1)
         | (Inr r, w1) \<Rightarrow>
             (case save_formatted content content_type temp_dir base_filename w1 of
                (Inl e, w2) \<Rightarrow> (Inl (failed e), w2)
              | (Inr formatted_path, w2) \<Rightarrow>
                  (case py_get content ''metadata'' (PDict []) of
                     Inl e \<Rightarrow> (Inl (failed e), w2)
                   | Inr metadata \<Rightarrow>
                       (case retry_operation (save_yaml metadata metadata_path) w2 of
                          (Inl e, w3) \<Rightarrow> (Inl (failed e), w3)
                        | (Inr r, w3) \<Rightarrow>
                            (Inr (dict_set (dict_set (dict_set [] ''json'' json_path)
                                      ''formatted'' formatted_path) ''metadata'' metadata_path),
                             w3)))))"

text \<open>\<open>json.load\<close> of a file: the document of a JSON file; a file of another kind is taken
  not to parse.\<close>

definition json_load :: "fdata \<Rightarrow> error + pyval" where
  "json_load data =
     (case data of
        JsonFile v \<Rightarrow> Inr v
      | _ \<Rightarrow> Inl (ValueError ''Expecting value: line 1 column 1 (char 0)''))"

fun verify_saved_files :: "paths \<Rightarrow> string \<Rightarrow> world \<Rightarrow> (error + unit) \<times> world" where
  "verify_saved_files [] checksum w = (Inr (), w)"
| "verify_saved_files ((path_type, p) # rest) checksum w =
     (if \<not> path_exists p w then (Inl (FileError (''Missing file: '' @ path_str p)), w)
      else if path_type = ''json'' then
        (case fs_read p w of
           (Inl e, w1) \<Rightarrow> (Inl e, w1)
         | (Inr data, w1) \<Rightarrow>
             (case then_do (json_load data) compute_checksum of
                Inl e \<Rightarrow> (Inl e, w1)
              | Inr saved_checksum \<Rightarrow>
                  if saved_checksum \<noteq> checksum
                  then (Inl (ValidationError ''Content verification failed''), w1)
                  else verify_saved_files rest checksum w1))
      else verify_saved_files rest checksum w)"

text \<open>The loop of \<open>_move_to_final_location\<close>, with the dictionary \<open>final_paths\<close> it fills.\<close>

fun move_files :: "paths \<Rightarrow> dir \<Rightarrow> paths \<Rightarrow> world \<Rightarrow> (error + paths) \<times> world" where
  "move_files [] content_dir final_paths w = (Inr final_paths, w)"
| "move_files ((path_type, temp_path) # rest) content_dir final_paths w =
     (let final_path = (content_dir, snd temp_path)
      in case retry_operation (fs_move temp_path final_path) w of
           (Inl e, w1) \<Rightarrow> (Inl e, w1)
         | (Inr r, w1) \<Rightarrow>
             move_files rest content_dir (dict_set final_paths path_type final_path) w1)"

definition move_to_final_location ::
  "paths \<Rightarrow> dir \<Rightarrow> string \<Rightarrow> world \<Rightarrow> (error + paths) \<times> world" where
  "move_to_final_location temp_paths content_dir base_filename w =
     (case move_files temp_paths content_dir [] w of
        (Inl e, w1) \<Rightarrow> (Inl (reraise FileError ''Failed to move files to final location: '' e), w1)
      | (Inr final_paths, w1) \<Rightarrow> (Inr final_paths, w1))"

text \<open>\<open>src.relative_to(self.base_dir)\<close>: the part of a path below the base directory.\<close>

fun relative_to :: "path \<Rightarrow> string \<Rightarrow> error + string \<times> string \<times> string" where
  "relative_to (OutDir base date kind, name) b =
     (if base = b then Inr (date, kind, name)
      else Inl (ValueError (quoted (path_str (OutDir base date kind, name)) @
                            '' is not in the subpath of '' @ quoted b)))"
| "relative_to (TempDir n, name) b =
     Inl (ValueError (quoted (path_str (TempDir n, name)) @
                      '' is not in the subpath of '' @ quoted b))"

fun backup_files :: "string \<Rightarrow> string \<Rightarrow> path list \<Rightarrow> world \<Rightarrow> (error + unit) \<times> world" where
  "backup_files base backup [] w = (Inr (), w)"
| "backup_files base backup (src # rest) w =
     (case relative_to src base of
        Inl e \<Rightarrow> (Inl e, w)
      | Inr (date, kind, name) \<Rightarrow>
          (let dst = (OutDir backup date kind, name)
           in case fs_mkdir (fst dst) w of
                (Inl e, w1) \<Rightarrow> (Inl e, w1)
              | (Inr u, w1) \<Rightarrow>
                  (case fs_copy src dst w1 of
                     (Inl e, w2) \<Rightarrow> (Inl e, w2)
                   | (Inr u, w2) \<Rightarrow> backup_files base backup rest w2)))"

text \<open>\<open>_create_backup\<close> swallows every exception of its loop (it only logs it), so it has
  no result but the world it leaves.\<close>

definition create_backup :: "manager \<Rightarrow> paths \<Rightarrow> world \<Rightarrow> world" where
  "create_backup m final_paths w =
     (case backup_dir m of
        None \<Rightarrow> w
      | Some backup \<Rightarrow> snd (backup_files (base_dir m) backup (map snd final_paths) w))"

text \<open>The context manager \<open>safe_file_operation\<close>: a new scratch directory for the body,
  removed afterwards whether the body returned or raised; a failure of the removal is
  only logged.\<close>

definition safe_file_operation ::
  "(dir \<Rightarrow> world \<Rightarrow> (error + 'a) \<times> world) \<Rightarrow> world \<Rightarrow> (error + 'a) \<times> world" where
  "safe_file_operation body w =
     (case fs_mkdtemp w of
        (Inl e, w1) \<Rightarrow> (Inl e, w1)
      | (Inr temp_dir, w1) \<Rightarrow>
          (case body temp_dir w1 of (r, w2) \<Rightarrow> (r, snd (fs_rmtree temp_dir w2))))"

text \<open>The body of the \<open>with\<close> block of \<open>save_content\<close>.\<close>

definition save_staged ::
  "manager \<Rightarrow> pyval \<Rightarrow> string \<Rightarrow> string \<Rightarrow> dir \<Rightarrow> world \<Rightarrow> (error + paths) \<times> world" where
  "save_staged m content content_type checksum temp_dir w =
     (case get_content_dir m content_type w of
        (Inl e, w1) \<Rightarrow> (Inl e, w1)
      | (Inr content_dir, w1) \<Rightarrow>
          (let timestamp = strftime_stamp m (clock w1)
           in case then_do (py_get content ''metadata'' (PDict []))
                     (\<lambda>metadata. py_get metadata ''topic'' (PStr ''untitled'')) of
                Inl e \<Rightarrow> (Inl e, w1)
              | Inr topic \<Rightarrow>
                  (let base_filename = sanitize_filename topic @ ''_'' @ timestamp
                   in case save_all_formats content content_type temp_dir base_filename w1 of
                        (Inl e, w2) \<Rightarrow> (Inl e, w2)
                      | (Inr temp_paths, w2) \<Rightarrow>
                          (case verify_saved_files temp_paths checksum w2 of
                             (Inl e, w3) \<Rightarrow> (Inl e, w3)
                           | (Inr u, w3) \<Rightarrow>
                               (case move_to_final_location temp_paths content_dir
                                       base_filename w3 of
                                  (Inl e, w4) \<Rightarrow> (Inl e, w4)
                                | (Inr final_paths, w4) \<Rightarrow>
                                    (Inr final_paths,
                                     if backup_dir m \<noteq> None
                                     then create_backup m final_paths w4 else w4))))))"

text \<open>
  \<open>save_content\<close>.  The deep copy of the record is the record itself, values being
  immutable here.  Every exception is raised again as an \<open>OutputError\<close>; the time of the
  save stays recorded in the manager.
\<close>

definition rate_limit :: "manager \<Rightarrow> world \<Rightarrow> manager \<times> world" where
  "rate_limit m w =
     (let now = clock w;
          w1 = (if now - last_save_time m < RATE_LIMIT_INTERVAL
                then time_sleep (RATE_LIMIT_INTERVAL - (now - last_save_time m)) w else w)
      in (m\<lparr>last_save_time := clock w1\<rparr>, w1))"

definition save_failed :: "error \<Rightarrow> error" where
  "save_failed e = reraise OutputError ''Content save failed: '' e"

definition save_content ::
  "manager \<Rightarrow> pyval \<Rightarrow> string \<Rightarrow> world \<Rightarrow> (error + paths) \<times> manager \<times> world" where
  "save_content m content content_type w =
     (case json_dumps False content of
        Inl e \<Rightarrow> (Inl (save_failed e), m, w)
      | Inr dumped \<Rightarrow>
          (let content_size = length dumped
           in if content_size > MAX_CONTENT_SIZE
              then (Inl (save_failed (ValidationError
                      (''Content size ('' @ str_nat content_size @ '' bytes) exceeds limit''))),
                    m, w)
              else (case rate_limit m w of
                      (m1, w1) \<Rightarrow>
                        (case then_do (validate_content content content_type)
                                (\<lambda>u. compute_checksum content) of
                           Inl e \<Rightarrow> (Inl (save_failed e), m1, w1)
                         | Inr checksum \<Rightarrow>
                             (case safe_file_operation
                                     (save_staged m1 content content_type checksum) w1 of
                                (Inl e, w2) \<Rightarrow> (Inl (save_failed e), m1, w2)
                              | (Inr final_paths, w2) \<Rightarrow> (Inr final_paths, m1, w2))))))"

section \<open>Normalisation on a store of dictionary objects\<close>

text \<open>
  Whether \<open>_normalize_content\<close> changes the dictionary it is given depends on
  \<open>content.copy()\<close> making a new object.  Here the dictionary objects live in a store, a
  reference is an index into it, \<open>copy\<close> allocates and \<open>pop\<close> updates in place.
\<close>

definition store_copy :: "pydict list \<Rightarrow> nat \<Rightarrow> pydict list \<times> nat" where
  "store_copy st r = (st @ [st ! r], length st)"

definition store_pop :: "pykey \<Rightarrow> nat \<Rightarrow> pydict list \<Rightarrow> pydict list" where
  "store_pop k r st = st[r := dict_pop k (st ! r)]"

definition normalize_in_store :: "pydict list \<Rightarrow> nat \<Rightarrow> pydict list \<times> nat" where
  "normalize_in_store st content =
     (case store_copy st content of
        (st1, normalized) \<Rightarrow>
          (foldl (\<lambda>s field. store_pop field normalized s) st1 volatile_fields, normalized))"

section \<open>Reading a trace\<close>

fun is_attempt :: "event \<Rightarrow> bool" where
  "is_attempt (Attempt i) = True"
| "is_attempt (Slept d) = False"

fun slept_total :: "event list \<Rightarrow> rat" where
  "slept_total [] = 0"
| "slept_total (Slept d # evs) = d + slept_total evs"
| "slept_total (Attempt i # evs) = slept_total evs"

text \<open>The world at the start of iteration \<open>i\<close> of the retry loop.\<close>

definition attempt_mark :: "nat \<Rightarrow> world \<Rightarrow> world" where
  "attempt_mark i w = w\<lparr>trace := trace w @ [Attempt i]\<rparr>"

text \<open>The characters of a lower-case hexadecimal digest.\<close>

definition is_hex_char :: "char \<Rightarrow> bool" where
  "is_hex_char c = (c \<in> set ''0123456789abcdef'')"

section \<open>Predicates for the properties of a save\<close>

fun is_temp_dir :: "dir \<Rightarrow> bool" where
  "is_temp_dir (TempDir n) = True"
| "is_temp_dir (OutDir base date kind) = False"

text \<open>Between two worlds nothing has changed outside the scratch directories: every
  file under an output or backup root is there, or not there, with the content it had.\<close>

definition outside_temp_unchanged :: "world \<Rightarrow> world \<Rightarrow> bool" where
  "outside_temp_unchanged w w' = (\<forall>p. \<not> is_temp_dir (fst p) \<longrightarrow> files w' p = files w p)"

text \<open>The exception \<open>save_content\<close> raises when \<open>_move_to_final_location\<close> has failed.\<close>

definition relocation_prefix :: string where
  "relocation_prefix = ''Content save failed: Failed to move files to final location: ''"

definition relocation_failure :: "error \<Rightarrow> bool" where
  "relocation_failure e =
     (case e of
        OutputError msg \<Rightarrow> take (length relocation_prefix) msg = relocation_prefix
      | _ \<Rightarrow> False)"

text \<open>A JSON-native value: every dictionary, at every depth, has distinct keys that are
  all strings.\<close>

fun json_native :: "pyval \<Rightarrow> bool" where
  "json_native (PList xs) = list_all json_native xs"
| "json_native (PDict kvs) =
     (distinct (map fst kvs) \<and>
      list_all (\<lambda>kv. \<not> is_int_key (fst kv) \<and> json_native (snd kv)) kvs)"
| "json_native v = True"

text \<open>The extension of the formatted artifact and the three artifacts of a save in
  directory \<open>d\<close> under the base name \<open>b\<close>.\<close>

definition formatted_ext :: "string \<Rightarrow> string" where
  "formatted_ext content_type = (if content_type \<noteq> ''text'' then ''.md'' else ''.txt'')"

definition artifacts :: "dir \<Rightarrow> string \<Rightarrow> string \<Rightarrow> paths" where
  "artifacts d b content_type =
     [(''json'', (d, b @ ''.json'')),
      (''formatted'', (d, b @ formatted_ext content_type)),
      (''metadata'', (d, b @ ''_meta.yaml''))]"

section \<open>Properties\<close>

subsection \<open>Validation\<close>

lemma validators_lookup:
  "map_of validators k =
     (if k = ''text'' then Some validate_text
      else if k = ''carousel'' then Some validate_carousel
      else if k = ''poll'' then Some validate_poll
      else if k = ''newsletter'' then Some validate_newsletter
      else if k = ''video_script'' then Some validate_video_script
      else if k = ''document'' then Some validate_document
      else None)"
  by (simp add: validators_def)

lemma validate_text_ok:
  "validate_text d = Inr () \<longleftrightarrow> (\<exists>v. map_of d (KStr ''content'') = Some v \<and> truthy v)"
  by (auto simp: validate_text_def dict_has_def dict_get_def split: option.splits)

lemma validate_video_script_ok:
  "validate_video_script d = Inr () \<longleftrightarrow> (\<exists>v. map_of d (KStr ''script'') = Some v \<and> truthy v)"
  by (auto simp: validate_video_script_def dict_has_def dict_get_def split: option.splits)

lemma validate_carousel_ok:
  "validate_carousel d = Inr () \<longleftrightarrow> (\<exists>xs. map_of d (KStr ''slides'') = Some (PList xs))"
  by (auto simp: validate_carousel_def dict_has_def dict_get_def split: option.splits pyval.splits)

lemma validate_poll_ok:
  "validate_poll d = Inr () \<longleftrightarrow> (\<exists>xs. map_of d (KStr ''options'') = Some (PList xs))"
  by (auto simp: validate_poll_def dict_has_def dict_get_def split: option.splits pyval.splits)

lemma validate_newsletter_ok:
  "validate_newsletter d = Inr () \<longleftrightarrow> (\<exists>kvs. map_of d (KStr ''sections'') = Some (PDict kvs))"
  by (auto simp: validate_newsletter_def dict_has_def dict_get_def split: option.splits pyval.splits)

lemma validate_document_ok:
  "validate_document d = Inr () \<longleftrightarrow> (\<exists>kvs. map_of d (KStr ''sections'') = Some (PDict kvs))"
  by (auto simp: validate_document_def dict_has_def dict_get_def split: option.splits pyval.splits)

lemma kind_validators_raise_validation_error:
  "validate_text d = Inr () \<or> is_validation_error (validate_text d)"
  "validate_carousel d = Inr () \<or> is_validation_error (validate_carousel d)"
  "validate_poll d = Inr () \<or> is_validation_error (validate_poll d)"
  "validate_newsletter d = Inr () \<or> is_validation_error (validate_newsletter d)"
  "validate_video_script d = Inr () \<or> is_validation_error (validate_video_script d)"
  "validate_document d = Inr () \<or> is_validation_error (validate_document d)"
  by (auto simp: is_validation_error_def validate_text_def validate_carousel_def validate_poll_def
      validate_newsletter_def validate_video_script_def validate_document_def split: pyval.splits)

lemma validate_content_error_kind:
  "validate_content c k = Inr () \<or> is_validation_error (validate_content c k)"
proof (cases c)
  case (PDict d)
  show ?thesis
    using kind_validators_raise_validation_error [of d]
    by (auto simp: PDict validate_content_def validators_lookup is_validation_error_def)
qed (simp_all add: validate_content_def is_validation_error_def)

text \<open>
  Claim C4, as the code has it.  \<open>validate_content\<close> accepts a record for a kind exactly
  when the record is a non-empty mapping with a \<open>metadata\<close> key and the kind is one of
  the six registered kinds whose field check passes: \<open>content\<close> (text) and \<open>script\<close>
  (video script) must be present with a truthy value of any type, \<open>slides\<close> (carousel)
  and \<open>options\<close> (poll) must be present and lists, \<open>sections\<close> (newsletter, document)
  must be present and a mapping.  Every other record and every other kind is rejected,
  and every rejection is a \<open>ValidationError\<close>.  The function is pure: its model has no
  state to change.
\<close>

theorem validate_content_accepts_iff:
  "(validate_content c k = Inr () \<longleftrightarrow>
      (\<exists>d. c = PDict d \<and> d \<noteq> [] \<and> dict_has d (KStr ''metadata'') \<and>
        ((k = ''text'' \<and> (\<exists>v. map_of d (KStr ''content'') = Some v \<and> truthy v)) \<or>
         (k = ''carousel'' \<and> (\<exists>xs. map_of d (KStr ''slides'') = Some (PList xs))) \<or>
         (k = ''poll'' \<and> (\<exists>xs. map_of d (KStr ''options'') = Some (PList xs))) \<or>
         (k = ''newsletter'' \<and> (\<exists>kvs. map_of d (KStr ''sections'') = Some (PDict kvs))) \<or>
         (k = ''video_script'' \<and> (\<exists>v. map_of d (KStr ''script'') = Some v \<and> truthy v)) \<or>
         (k = ''document'' \<and> (\<exists>kvs. map_of d (KStr ''sections'') = Some (PDict kvs))))))
   \<and> (validate_content c k = Inr () \<or> is_validation_error (validate_content c k))"
proof (rule conjI)
  show "validate_content c k = Inr () \<or> is_validation_error (validate_content c k)"
    by (rule validate_content_error_kind)
next
  show "validate_content c k = Inr () \<longleftrightarrow>
      (\<exists>d. c = PDict d \<and> d \<noteq> [] \<and> dict_has d (KStr ''metadata'') \<and>
        ((k = ''text'' \<and> (\<exists>v. map_of d (KStr ''content'') = Some v \<and> truthy v)) \<or>
         (k = ''carousel'' \<and> (\<exists>xs. map_of d (KStr ''slides'') = Some (PList xs))) \<or>
         (k = ''poll'' \<and> (\<exists>xs. map_of d (KStr ''options'') = Some (PList xs))) \<or>
         (k = ''newsletter'' \<and> (\<exists>kvs. map_of d (KStr ''sections'') = Some (PDict kvs))) \<or>
         (k = ''video_script'' \<and> (\<exists>v. map_of d (KStr ''script'') = Some v \<and> truthy v)) \<or>
         (k = ''document'' \<and> (\<exists>kvs. map_of d (KStr ''sections'') = Some (PDict kvs)))))"
  proof (cases c)
    case (PDict d)
    show ?thesis
      by (simp add: PDict validate_content_def validators_lookup validate_text_ok
          validate_video_script_ok validate_carousel_ok validate_poll_ok
          validate_newsletter_ok validate_document_ok)
  qed (simp_all add: validate_content_def)
qed

text \<open>Witness for C4: the characterisation used on a text record.\<close>

theorem validate_content_accepts_iff_witness:
  "validate_content (PDict [(KStr ''content'', PStr ''Hello world''), (KStr ''metadata'', PDict [])]) ''text''
     = Inr ()"
  using validate_content_accepts_iff
    [of "PDict [(KStr ''content'', PStr ''Hello world''), (KStr ''metadata'', PDict [])]" "''text''"]
  by (simp add: dict_has_def)

text \<open>
  Counterexample to C4 as stated: a text record whose \<open>content\<close> is the integer 5 is
  accepted, although the specification's table asks for a non-empty string.
\<close>

theorem validate_content_table_counterexample:
  "validate_content (PDict [(KStr ''content'', PInt 5), (KStr ''metadata'', PDict [])]) ''text'' = Inr ()
   \<and> \<not> spec_valid (PDict [(KStr ''content'', PInt 5), (KStr ''metadata'', PDict [])]) ''text''"
  by (simp add: validate_content_def validators_def validate_text_def dict_has_def dict_get_def
      spec_valid_def spec_required_field_def)

lemma map_of_dict_set: "map_of (dict_set d k v) k' = (if k' = k then Some v else map_of d k')"
  by (induction d k v rule: dict_set.induct) auto

lemma dict_set_nonempty: "dict_set d k v \<noteq> []"
  by (cases d) (auto split: if_splits)

subsection \<open>Filename sanitisation\<close>

lemma safe_char_allowed:
  "isalnum (safe_char x) \<or> safe_char x = CHR '' '' \<or> safe_char x = CHR ''-'' \<or> safe_char x = CHR ''_''"
  by (simp add: safe_char_def)

lemma set_strip: "set (strip s) \<subseteq> set s"
  unfolding strip_def
  by (metis (no_types) set_dropWhileD set_rev subsetI)

lemma untitled_alnum: "c \<in> set ''untitled'' \<Longrightarrow> isalnum c"
  by (auto simp: isalnum_def)

text \<open>
  Claim C6, as the code has it.  For every input string, \<open>_sanitize_filename\<close> lower-cases
  it, replaces every character that is not alphanumeric, space, hyphen or underscore by
  an underscore, strips leading and trailing whitespace, and falls back to \<open>untitled\<close>
  when nothing is left.  The result is never empty and has only alphanumerics, spaces,
  hyphens and underscores.  The empty string gives \<open>untitled\<close>, and \<open>AI/ML 2024!\<close>
  gives \<open>ai_ml 2024_\<close>, the space kept.
\<close>

theorem sanitize_filename_amended:
  "sanitize_filename (PStr s) =
     (let r = strip (map safe_char (lower s)) in if r = [] then ''untitled'' else r)
   \<and> sanitize_filename (PStr s) \<noteq> []
   \<and> set (sanitize_filename (PStr s))
        \<subseteq> {c. isalnum c \<or> c = CHR '' '' \<or> c = CHR ''-'' \<or> c = CHR ''_''}
   \<and> sanitize_filename (PStr []) = ''untitled''
   \<and> sanitize_filename (PStr ''AI/ML 2024!'') = ''ai_ml 2024_''"
proof -
  have 1: "sanitize_filename (PStr s) =
     (let r = strip (map safe_char (lower s)) in if r = [] then ''untitled'' else r)"
    by (cases s) (simp_all add: sanitize_filename_def strip_def lower_def Let_def)
  have 2: "sanitize_filename (PStr s) \<noteq> []"
    by (simp add: 1 Let_def)
  have 3: "set (sanitize_filename (PStr s))
        \<subseteq> {c. isalnum c \<or> c = CHR '' '' \<or> c = CHR ''-'' \<or> c = CHR ''_''}"
  proof (cases "strip (map safe_char (lower s)) = []")
    case True
    then show ?thesis using untitled_alnum by (auto simp: 1 Let_def)
  next
    case False
    have "set (strip (map safe_char (lower s))) \<subseteq> set (map safe_char (lower s))"
      by (rule set_strip)
    then show ?thesis using False safe_char_allowed by (auto simp: 1 Let_def)
  qed
  have 4: "sanitize_filename (PStr []) = ''untitled''"
    by (simp add: sanitize_filename_def)
  have 5: "sanitize_filename (PStr ''AI/ML 2024!'') = ''ai_ml 2024_''"
    by code_simp
  from 1 2 3 4 5 show ?thesis by blast
qed

text \<open>Witness for C6: the theorem at the string \<open>Q&A\<close>.\<close>

theorem sanitize_filename_amended_witness:
  "sanitize_filename (PStr ''Q&A'') \<noteq> []"
  using sanitize_filename_amended [of "''Q&A''"] by blast

text \<open>
  Counterexample to C6 as stated: the claimed value of \<open>AI/ML 2024!\<close> is not what the
  code returns, and a leading space does not survive (the claim has no stripping).
\<close>

theorem sanitize_filename_counterexample:
  "sanitize_filename (PStr ''AI/ML 2024!'') \<noteq> ''ai_ml_2024_''
   \<and> sanitize_filename (PStr '' a'') \<noteq> map safe_char (lower '' a'')"
  by code_simp

subsection \<open>The retry loop\<close>

lemma upt_3: "[0..<3] = [0, 1, 2]"
  by (simp add: upt_rec)

lemma retry_unroll:
  "retry_operation operation w =
     (case operation (attempt_mark 0 w) of
        (Inr r, w1) \<Rightarrow> (Inr (Some r), w1)
      | (Inl e1, w1) \<Rightarrow>
          (case operation (attempt_mark 1 (time_sleep 1 w1)) of
             (Inr r, w2) \<Rightarrow> (Inr (Some r), w2)
           | (Inl e2, w2) \<Rightarrow>
               (case operation (attempt_mark 2 (time_sleep 2 w2)) of
                  (Inr r, w3) \<Rightarrow> (Inr (Some r), w3)
                | (Inl e3, w3) \<Rightarrow> (Inl e3, w3))))"
  by (simp add: retry_operation_def MAX_RETRIES_def upt_3 attempt_mark_def
      split: prod.splits sum.splits)

lemma trace_attempt_mark [simp]: "trace (attempt_mark i w) = trace w @ [Attempt i]"
  by (simp add: attempt_mark_def)

lemma trace_time_sleep [simp]: "trace (time_sleep d w) = trace w @ [Slept d]"
  by (simp add: time_sleep_def)

lemma retry_trace_cases:
  assumes frame: "\<forall>w. trace (snd (operation w)) = trace w"
  shows "\<exists>evs. trace (snd (retry_operation operation w)) = trace w @ evs \<and>
           (evs = [Attempt 0] \<or> evs = [Attempt 0, Slept 1, Attempt 1] \<or>
            evs = [Attempt 0, Slept 1, Attempt 1, Slept 2, Attempt 2])"
proof -
  have f: "\<And>w r w'. operation w = (r, w') \<Longrightarrow> trace w' = trace w"
    using frame by (metis snd_conv)
  show ?thesis
    by (auto simp: retry_unroll split: prod.splits sum.splits dest!: f)
qed

lemma retry_always_fails:
  assumes frame: "\<forall>w. trace (snd (operation w)) = trace w"
    and fails: "\<forall>w. isl (fst (operation w))"
  shows "\<exists>e1 w1 e2 w2 e3 w3.
           operation (attempt_mark 0 w) = (Inl e1, w1) \<and>
           operation (attempt_mark 1 (time_sleep 1 w1)) = (Inl e2, w2) \<and>
           operation (attempt_mark 2 (time_sleep 2 w2)) = (Inl e3, w3) \<and>
           retry_operation operation w = (Inl e3, w3) \<and>
           trace w3 = trace w @ [Attempt 0, Slept 1, Attempt 1, Slept 2, Attempt 2]"
proof -
  have f: "\<And>w r w'. operation w = (r, w') \<Longrightarrow> trace w' = trace w"
    using frame by (metis snd_conv)
  have g: "\<And>w. \<exists>e w'. operation w = (Inl e, w')"
    using fails by (metis isl_def prod.collapse)
  obtain e1 w1 where 1: "operation (attempt_mark 0 w) = (Inl e1, w1)"
    using g by blast
  obtain e2 w2 where 2: "operation (attempt_mark 1 (time_sleep 1 w1)) = (Inl e2, w2)"
    using g by blast
  obtain e3 w3 where 3: "operation (attempt_mark 2 (time_sleep 2 w2)) = (Inl e3, w3)"
    using g by blast
  have r: "retry_operation operation w = (Inl e3, w3)"
    by (simp only: retry_unroll 1 2 3 prod.case sum.case)
  have t: "trace w3 = trace w @ [Attempt 0, Slept 1, Attempt 1, Slept 2, Attempt 2]"
    using f [OF 1] f [OF 2] f [OF 3] by simp
  from 1 2 3 r t show ?thesis by blast
qed

lemma retry_first_success:
  assumes "operation (attempt_mark 0 w) = (Inr r, w1)"
  shows "retry_operation operation w = (Inr (Some r), w1)"
  using assms by (simp add: retry_unroll)

text \<open>
  Claim C5.  \<open>_retry_operation\<close> makes at most three attempts: its result is that of the
  first attempt when it succeeds, else that of the second after a wait of 1 second when
  it succeeds, else that of the third after a further wait of 2 seconds, whose exception
  (if it raises) is passed on as it is.  For an operation that leaves the trace alone the
  trace grows by at most three attempts, starting with an attempt and not a wait; if the
  operation always fails, by exactly \<open>Attempt 0, Slept 1, Attempt 1, Slept 2, Attempt 2\<close>,
  a total wait of 3 seconds, and the error raised is the third attempt's; if the first
  attempt succeeds its result is returned with no wait and no further attempt.
\<close>

theorem retry_operation_three_attempts:
  "retry_operation operation w =
     (case operation (attempt_mark 0 w) of
        (Inr r, w1) \<Rightarrow> (Inr (Some r), w1)
      | (Inl e1, w1) \<Rightarrow>
          (case operation (attempt_mark 1 (time_sleep 1 w1)) of
             (Inr r, w2) \<Rightarrow> (Inr (Some r), w2)
           | (Inl e2, w2) \<Rightarrow>
               (case operation (attempt_mark 2 (time_sleep 2 w2)) of
                  (Inr r, w3) \<Rightarrow> (Inr (Some r), w3)
                | (Inl e3, w3) \<Rightarrow> (Inl e3, w3))))
   \<and> ((\<forall>w. trace (snd (operation w)) = trace w) \<longrightarrow>
        (\<exists>evs. trace (snd (retry_operation operation w)) = trace w @ evs \<and>
               length (filter is_attempt evs) \<le> 3 \<and> take 1 evs = [Attempt 0]))
   \<and> ((\<forall>w. trace (snd (operation w)) = trace w) \<and> (\<forall>w. isl (fst (operation w))) \<longrightarrow>
        (\<exists>e1 w1 e2 w2 e3 w3.
           operation (attempt_mark 0 w) = (Inl e1, w1) \<and>
           operation (attempt_mark 1 (time_sleep 1 w1)) = (Inl e2, w2) \<and>
           operation (attempt_mark 2 (time_sleep 2 w2)) = (Inl e3, w3) \<and>
           retry_operation operation w = (Inl e3, w3) \<and>
           trace w3 = trace w @ [Attempt 0, Slept 1, Attempt 1, Slept 2, Attempt 2] \<and>
           slept_total [Attempt 0, Slept 1, Attempt 1, Slept 2, Attempt 2] = 3))
   \<and> (\<forall>r w1. operation (attempt_mark 0 w) = (Inr r, w1) \<longrightarrow>
         retry_operation operation w = (Inr (Some r), w1) \<and>
         ((\<forall>w. trace (snd (operation w)) = trace w) \<longrightarrow> trace w1 = trace w @ [Attempt 0]))"
proof (intro conjI impI allI)
  show "retry_operation operation w =
     (case operation (attempt_mark 0 w) of
        (Inr r, w1) \<Rightarrow> (Inr (Some r), w1)
      | (Inl e1, w1) \<Rightarrow>
          (case operation (attempt_mark 1 (time_sleep 1 w1)) of
             (Inr r, w2) \<Rightarrow> (Inr (Some r), w2)
           | (Inl e2, w2) \<Rightarrow>
               (case operation (attempt_mark 2 (time_sleep 2 w2)) of
                  (Inr r, w3) \<Rightarrow> (Inr (Some r), w3)
                | (Inl e3, w3) \<Rightarrow> (Inl e3, w3))))"
    by (rule retry_unroll)
next
  assume "\<forall>w. trace (snd (operation w)) = trace w"
  from retry_trace_cases [OF this, of w]
  show "\<exists>evs. trace (snd (retry_operation operation w)) = trace w @ evs \<and>
               length (filter is_attempt evs) \<le> 3 \<and> take 1 evs = [Attempt 0]"
    by auto
next
  assume a: "(\<forall>w. trace (snd (operation w)) = trace w) \<and> (\<forall>w. isl (fst (operation w)))"
  have "slept_total [Attempt 0, Slept 1, Attempt 1, Slept 2, Attempt 2] = 3"
    by simp
  with retry_always_fails [of operation w] a
  show "\<exists>e1 w1 e2 w2 e3 w3.
           operation (attempt_mark 0 w) = (Inl e1, w1) \<and>
           operation (attempt_mark 1 (time_sleep 1 w1)) = (Inl e2, w2) \<and>
           operation (attempt_mark 2 (time_sleep 2 w2)) = (Inl e3, w3) \<and>
           retry_operation operation w = (Inl e3, w3) \<and>
           trace w3 = trace w @ [Attempt 0, Slept 1, Attempt 1, Slept 2, Attempt 2] \<and>
           slept_total [Attempt 0, Slept 1, Attempt 1, Slept 2, Attempt 2] = 3"
    by blast
next
  fix r w1
  assume "operation (attempt_mark 0 w) = (Inr r, w1)"
  then show "retry_operation operation w = (Inr (Some r), w1)"
    by (rule retry_first_success)
next
  fix r w1
  assume 1: "operation (attempt_mark 0 w) = (Inr r, w1)"
    and f: "\<forall>w. trace (snd (operation w)) = trace w"
  from f have "trace (snd (operation (attempt_mark 0 w))) = trace (attempt_mark 0 w)"
    by blast
  then show "trace w1 = trace w @ [Attempt 0]"
    by (simp add: 1)
qed

text \<open>Witness for C5: an operation that always raises, in a world with an empty trace,
  is attempted three times with waits of 1 and 2 seconds.\<close>

theorem retry_operation_three_attempts_witness:
  "trace (snd (retry_operation (\<lambda>w. (Inl io_error :: error + unit, w))
       \<lparr>files = (\<lambda>p. None), faults = [], clock = 0, next_tmp = 0, trace = []\<rparr>))
     = [Attempt 0, Slept 1, Attempt 1, Slept 2, Attempt 2]
   \<and> fst (retry_operation (\<lambda>w. (Inl io_error :: error + unit, w))
       \<lparr>files = (\<lambda>p. None), faults = [], clock = 0, next_tmp = 0, trace = []\<rparr>)
     = Inl io_error"
proof -
  let ?op = "\<lambda>w::world. (Inl io_error :: error + unit, w)"
  let ?w = "\<lparr>files = (\<lambda>p. None), faults = [], clock = 0, next_tmp = 0, trace = []\<rparr>"
  have h: "(\<forall>w. trace (snd (?op w)) = trace w) \<and> (\<forall>w. isl (fst (?op w)))"
    by simp
  from retry_operation_three_attempts [of ?op ?w] h
  obtain e1 w1 e2 w2 e3 w3 where
    "?op (attempt_mark 2 (time_sleep 2 w2)) = (Inl e3, w3)"
    "retry_operation ?op ?w = (Inl e3, w3)"
    "trace w3 = trace ?w @ [Attempt 0, Slept 1, Attempt 1, Slept 2, Attempt 2]"
    by blast
  then show ?thesis by auto
qed

subsection \<open>Checksums\<close>

lemma normalize_content_dict:
  "normalize_content (PDict d) =
     PDict (filter (\<lambda>kv. fst kv \<noteq> KStr ''generation_time'' \<and> fst kv \<noteq> KStr ''metadata'') d)"
  by (simp add: normalize_content_def volatile_fields_def dict_pop_def conj_commute)

lemma key_ord_inj: "key_ord a = key_ord b \<Longrightarrow> a = b"
  by (cases a; cases b) simp_all

lemma sort_items_eqI:
  assumes d1: "distinct (map fst xs)" and d2: "distinct (map fst ys)" and s: "set xs = set ys"
  shows "sort_items xs = sort_items ys"
proof -
  let ?f = "\<lambda>kv::pykey \<times> pyval. key_ord (fst kv)"
  have i: "inj_on ?f (set xs)"
  proof (rule inj_onI)
    fix a b assume "a \<in> set xs" "b \<in> set xs" "key_ord (fst a) = key_ord (fst b)"
    then show "a = b"
      using d1 by (metis key_ord_inj distinct_map inj_onD)
  qed
  have dx: "distinct (map ?f (sort_key ?f xs))"
    using d1 i by (simp add: distinct_map)
  have dy: "distinct (map ?f (sort_key ?f ys))"
    using d2 i s by (simp add: distinct_map)
  show ?thesis
    unfolding sort_items_def
    by (rule map_sorted_distinct_set_unique [where f = ?f])
       (use i s dx dy in simp_all)
qed

lemma mixed_keys_set: "set xs = set ys \<Longrightarrow> mixed_keys xs = mixed_keys ys"
  by (simp add: mixed_keys_def list_ex_iff)

lemma sort_fails_set: "set xs = set ys \<Longrightarrow> sort_fails (PDict xs) = sort_fails (PDict ys)"
  by (simp add: mixed_keys_set [of xs ys] list_ex_iff)

lemma json_dumps_sorted_eqI:
  assumes "distinct (map fst xs)" "distinct (map fst ys)" "set xs = set ys"
  shows "json_dumps True (PDict xs) = json_dumps True (PDict ys)"
  using sort_items_eqI [OF assms] sort_fails_set [OF assms(3)]
  by (simp add: json_dumps_def)

lemma checksum_ignores_volatile_aux:
  assumes d1: "distinct (map fst d1)" and d2: "distinct (map fst d2)"
    and same: "\<forall>k. k \<noteq> KStr ''generation_time'' \<and> k \<noteq> KStr ''metadata'' \<longrightarrow> map_of d1 k = map_of d2 k"
  shows "compute_checksum (PDict d1) = compute_checksum (PDict d2)"
proof -
  let ?P = "\<lambda>kv::pykey \<times> pyval. fst kv \<noteq> KStr ''generation_time'' \<and> fst kv \<noteq> KStr ''metadata''"
  have f1: "distinct (map fst (filter ?P d1))" and f2: "distinct (map fst (filter ?P d2))"
    using d1 d2 by (simp_all add: distinct_map_filter)
  have a: "\<And>k v. (k, v) \<in> set d1 \<longleftrightarrow> map_of d1 k = Some v"
    using d1 by simp
  have b: "\<And>k v. (k, v) \<in> set d2 \<longleftrightarrow> map_of d2 k = Some v"
    using d2 by simp
  have "set (filter ?P d1) = set (filter ?P d2)"
    using same by (auto simp: a b)
  then have "json_dumps True (PDict (filter ?P d1)) = json_dumps True (PDict (filter ?P d2))"
    using f1 f2 by (intro json_dumps_sorted_eqI)
  then show ?thesis
    by (simp add: compute_checksum_def normalize_content_dict)
qed

text \<open>digest length\<close>

lemma sha_round_length: "length s = 8 \<Longrightarrow> length (sha_round s k w) = 8"
proof -
  assume "length s = 8"
  then obtain a b c d e f g h where "s = [a, b, c, d, e, f, g, h]"
    by (auto simp: length_Suc_conv eval_nat_numeral)
  then show ?thesis by (simp add: Let_def)
qed

lemma sha_rounds_length: "length s = 8 \<Longrightarrow> length (sha_rounds s ks ws) = 8"
  by (induction s ks ws rule: sha_rounds.induct) (simp_all add: sha_round_length)

lemma compress_length: "length hs = 8 \<Longrightarrow> length (compress hs block) = 8"
  by (simp add: compress_def sha_rounds_length)

lemma sha_blocks_length: "length hs = 8 \<Longrightarrow> length (sha_blocks n hs bs) = 8"
  by (induction n hs bs rule: sha_blocks.induct) (simp_all add: compress_length)

lemma sha256_length: "length (sha256 m) = 8"
  by (simp add: sha256_def Let_def sha_blocks_length H256_def)

lemma hex_digits_all: "list_all (\<lambda>n. is_hex_char (hex_digit n)) [0..<16]"
  by code_simp

lemma hex_digit_range: "n < 16 \<Longrightarrow> is_hex_char (hex_digit n)"
  using hex_digits_all by (simp add: list_all_iff)

lemma hex32_props: "length (hex32 w) = 8 \<and> list_all is_hex_char (hex32 w)"
proof -
  have "\<And>d. is_hex_char (hex_digit (nat ((w div d) mod 16)))"
    by (rule hex_digit_range) (simp add: nat_less_iff)
  then show ?thesis
    using hex_digit_range [of "nat (w mod 16)"]
    unfolding hex32_def by (simp add: nat_less_iff)
qed

lemma hexdigest_length: "length (hexdigest ws) = 8 * length ws"
  by (induction ws) (simp_all add: hexdigest_def hex32_props)

lemma hexdigest_hex: "list_all is_hex_char (hexdigest ws)"
  using hex32_props by (induction ws) (simp_all add: hexdigest_def)

lemma sha256_hex_props:
  "length (sha256_hex s) = 64 \<and> list_all is_hex_char (sha256_hex s)"
  by (simp add: sha256_hex_def hexdigest_length sha256_length hexdigest_hex)

text \<open>
  Claim C3.  Two records (dictionaries with distinct keys) that agree on every key other
  than \<open>generation_time\<close> and \<open>metadata\<close>, whatever these two hold or whether they are
  there, and in whatever order the keys were inserted, have the same checksum (or raise
  the same error).  A checksum is the SHA-256 hex digest of the sorted-key serialisation
  of the normalised record: 64 characters, each a lower-case hexadecimal digit.
\<close>

theorem checksum_ignores_volatile_fields:
  "(distinct (map fst d1) \<and> distinct (map fst d2) \<and>
    (\<forall>k. k \<noteq> KStr ''generation_time'' \<and> k \<noteq> KStr ''metadata'' \<longrightarrow> map_of d1 k = map_of d2 k)
      \<longrightarrow> compute_checksum (PDict d1) = compute_checksum (PDict d2))
   \<and> (\<forall>h. compute_checksum c = Inr h \<longrightarrow>
          h = sha256_hex (json_text True (normalize_content c)) \<and>
          length h = 64 \<and> list_all is_hex_char h)"
proof (intro conjI impI allI)
  assume "distinct (map fst d1) \<and> distinct (map fst d2) \<and>
    (\<forall>k. k \<noteq> KStr ''generation_time'' \<and> k \<noteq> KStr ''metadata'' \<longrightarrow> map_of d1 k = map_of d2 k)"
  then show "compute_checksum (PDict d1) = compute_checksum (PDict d2)"
    using checksum_ignores_volatile_aux by blast
next
  fix h
  assume "compute_checksum c = Inr h"
  then have h: "h = sha256_hex (json_text True (normalize_content c))"
    by (auto simp: compute_checksum_def json_dumps_def split: if_splits)
  then show "h = sha256_hex (json_text True (normalize_content c))" .
  from h show "length h = 64"
    by (simp add: sha256_hex_props)
  from h show "list_all is_hex_char h"
    by (simp add: sha256_hex_props)
qed

text \<open>Witness for C3: two records with different metadata, different generation time and
  a different key order.\<close>

theorem checksum_ignores_volatile_fields_witness:
  "compute_checksum (PDict [(KStr ''content'', PStr ''x''),
                            (KStr ''metadata'', PDict [(KStr ''topic'', PStr ''a'')]),
                            (KStr ''generation_time'', PInt 1)])
   = compute_checksum (PDict [(KStr ''generation_time'', PInt 2), (KStr ''content'', PStr ''x'')])"
proof -
  let ?d1 = "[(KStr ''content'', PStr ''x''),
              (KStr ''metadata'', PDict [(KStr ''topic'', PStr ''a'')]),
              (KStr ''generation_time'', PInt 1)]"
  let ?d2 = "[(KStr ''generation_time'', PInt 2), (KStr ''content'', PStr ''x'')]"
  have "distinct (map fst ?d1) \<and> distinct (map fst ?d2) \<and>
    (\<forall>k. k \<noteq> KStr ''generation_time'' \<and> k \<noteq> KStr ''metadata'' \<longrightarrow> map_of ?d1 k = map_of ?d2 k)"
    by simp
  with checksum_ignores_volatile_fields [of ?d1 ?d2] show ?thesis
    by blast
qed

subsection \<open>Normalisation\<close>

lemma normalize_in_store_eq:
  "normalize_in_store st r =
     (st @ [dict_pop (KStr ''metadata'') (dict_pop (KStr ''generation_time'') (st ! r))], length st)"
  by (simp add: normalize_in_store_def store_copy_def store_pop_def volatile_fields_def)

lemma normalize_in_store_fresh:
  assumes "r < length st"
  shows "case normalize_in_store st r of
           (st', n) \<Rightarrow> n \<noteq> r \<and> take (length st) st' = st \<and>
                       PDict (st' ! n) = normalize_content (PDict (st ! r))"
  using assms
  by (simp add: normalize_in_store_eq normalize_content_def volatile_fields_def)

lemma nested_checksums_differ:
  "compute_checksum (PDict [(KStr ''body'', PDict [(KStr ''metadata'', PInt 1)])]) \<noteq>
   compute_checksum (PDict [(KStr ''body'', PDict [(KStr ''metadata'', PInt 2)])])"
  by code_simp

text \<open>
  Claim C10.  \<open>_normalize_content\<close> keeps of a dictionary exactly the entries whose key is
  neither \<open>generation_time\<close> nor \<open>metadata\<close>, each with its value as it was, so nothing
  below the top level is removed; a value that is not a dictionary is returned as it
  is.  On a store of dictionary objects the result is a new object and every object
  that was there, the argument among them, is left as it was.  The two records
  \<open>{'body': {'metadata': 1}}\<close> and \<open>{'body': {'metadata': 2}}\<close> differ only in a nested
  \<open>metadata\<close> value, are their own normal forms, and have different checksums.
\<close>

theorem normalize_content_top_level_only:
  "normalize_content (PDict d) =
     PDict (filter (\<lambda>kv. fst kv \<noteq> KStr ''generation_time'' \<and> fst kv \<noteq> KStr ''metadata'') d)
   \<and> ((\<forall>d. c \<noteq> PDict d) \<longrightarrow> normalize_content c = c)
   \<and> (r < length st \<longrightarrow>
        (case normalize_in_store st r of
           (st', n) \<Rightarrow> n \<noteq> r \<and> take (length st) st' = st \<and>
                       PDict (st' ! n) = normalize_content (PDict (st ! r))))
   \<and> normalize_content (PDict [(KStr ''body'', PDict [(KStr ''metadata'', PInt 1)])])
        = PDict [(KStr ''body'', PDict [(KStr ''metadata'', PInt 1)])]
   \<and> normalize_content (PDict [(KStr ''body'', PDict [(KStr ''metadata'', PInt 2)])])
        = PDict [(KStr ''body'', PDict [(KStr ''metadata'', PInt 2)])]
   \<and> compute_checksum (PDict [(KStr ''body'', PDict [(KStr ''metadata'', PInt 1)])]) \<noteq>
     compute_checksum (PDict [(KStr ''body'', PDict [(KStr ''metadata'', PInt 2)])])"
proof (intro conjI impI)
  show "normalize_content (PDict d) =
     PDict (filter (\<lambda>kv. fst kv \<noteq> KStr ''generation_time'' \<and> fst kv \<noteq> KStr ''metadata'') d)"
    by (rule normalize_content_dict)
next
  assume "\<forall>d. c \<noteq> PDict d"
  then show "normalize_content c = c"
    by (cases c) (simp_all add: normalize_content_def)
next
  assume "r < length st"
  then show "case normalize_in_store st r of
           (st', n) \<Rightarrow> n \<noteq> r \<and> take (length st) st' = st \<and>
                       PDict (st' ! n) = normalize_content (PDict (st ! r))"
    by (rule normalize_in_store_fresh)
next
  show "compute_checksum (PDict [(KStr ''body'', PDict [(KStr ''metadata'', PInt 1)])]) \<noteq>
     compute_checksum (PDict [(KStr ''body'', PDict [(KStr ''metadata'', PInt 2)])])"
    by (rule nested_checksums_differ)
qed (simp_all add: normalize_content_dict)

text \<open>Witness for C10: a store of one dictionary with both volatile keys; the normal form
  is a second object and the first is as before.\<close>

theorem normalize_content_top_level_only_witness:
  "(case normalize_in_store [[(KStr ''metadata'', PInt 1), (KStr ''a'', PInt 2)]] 0 of
      (st', n) \<Rightarrow> n \<noteq> 0 \<and> take 1 st' = [[(KStr ''metadata'', PInt 1), (KStr ''a'', PInt 2)]] \<and>
                  st' ! n = [(KStr ''a'', PInt 2)])
   \<and> normalize_content (PInt 7) = PInt 7"
  using normalize_content_top_level_only
    [of "[]" "PInt 7" 0 "[[(KStr ''metadata'', PInt 1), (KStr ''a'', PInt 2)]]"]
  by (simp add: normalize_content_dict split: prod.splits)

section \<open>The save pipeline\<close>

subsection \<open>File-system operations and the files\<close>

lemma take_fault_files: "take_fault w = (f, w1) \<Longrightarrow> files w1 = files w \<and> clock w1 = clock w"
  by (auto simp: take_fault_def split: list.splits)

lemma fs_write_files:
  "fs_write p data w = (r, w') \<Longrightarrow>
     clock w' = clock w \<and>
     (case r of Inl e \<Rightarrow> files w' = files w | Inr u \<Rightarrow> files w' = (files w)(p \<mapsto> data))"
  by (auto simp: fs_write_def split: prod.splits bool.splits dest: take_fault_files)

lemma fs_read_files:
  "fs_read p w = (r, w') \<Longrightarrow>
     files w' = files w \<and> clock w' = clock w \<and>
     (case r of Inl e \<Rightarrow> True | Inr data \<Rightarrow> files w p = Some data)"
  by (auto simp: fs_read_def split: prod.splits bool.splits option.splits dest: take_fault_files)

lemma fs_mkdir_files: "fs_mkdir d w = (r, w') \<Longrightarrow> files w' = files w \<and> clock w' = clock w"
  by (auto simp: fs_mkdir_def split: prod.splits bool.splits dest: take_fault_files)

lemma fs_mkdtemp_files:
  "fs_mkdtemp w = (r, w') \<Longrightarrow>
     files w' = files w \<and> clock w' = clock w \<and>
     (case r of Inl e \<Rightarrow> True | Inr d \<Rightarrow> is_temp_dir d)"
  by (auto simp: fs_mkdtemp_def split: prod.splits bool.splits dest: take_fault_files)

lemma fs_move_files:
  "fs_move src dst w = (r, w') \<Longrightarrow>
     clock w' = clock w \<and>
     (case r of
        Inl e \<Rightarrow> files w' = files w
      | Inr u \<Rightarrow> (\<exists>data. files w src = Some data \<and>
                        files w' = ((files w)(src := None))(dst \<mapsto> data)))"
  by (auto simp: fs_move_def split: prod.splits bool.splits option.splits dest: take_fault_files)

lemma fs_copy_files:
  "fs_copy src dst w = (r, w') \<Longrightarrow>
     clock w' = clock w \<and>
     (case r of
        Inl e \<Rightarrow> files w' = files w
      | Inr u \<Rightarrow> (\<exists>data. files w' = (files w)(dst \<mapsto> data)))"
  by (auto simp: fs_copy_def split: prod.splits bool.splits option.splits if_splits
      dest!: take_fault_files)

lemma fs_rmtree_files:
  "fs_rmtree d w = (r, w') \<Longrightarrow>
     clock w' = clock w \<and>
     (files w' = files w \<or> files w' = (\<lambda>p. if fst p = d then None else files w p))"
proof -
  assume a: "fs_rmtree d w = (r, w')"
  obtain f w1 where t: "take_fault w = (f, w1)"
    by (cases "take_fault w")
  from take_fault_files [OF t] a t show ?thesis
    by (cases f) (auto simp: fs_rmtree_def)
qed

subsection \<open>Nothing outside the scratch directories\<close>

lemma otu_refl [simp]: "outside_temp_unchanged w w"
  by (simp add: outside_temp_unchanged_def)

lemma otu_trans:
  "outside_temp_unchanged w w1 \<Longrightarrow> outside_temp_unchanged w1 w2 \<Longrightarrow> outside_temp_unchanged w w2"
  by (simp add: outside_temp_unchanged_def)

lemma otu_files_eq: "files w' = files w \<Longrightarrow> outside_temp_unchanged w w'"
  by (simp add: outside_temp_unchanged_def)

lemma otu_attempt_mark [simp]: "outside_temp_unchanged w (attempt_mark i w)"
  by (simp add: outside_temp_unchanged_def attempt_mark_def)

lemma otu_time_sleep [simp]: "outside_temp_unchanged w (time_sleep d w)"
  by (simp add: outside_temp_unchanged_def time_sleep_def)

lemma retry_otu:
  assumes op: "\<And>w r w'. operation w = (r, w') \<Longrightarrow> outside_temp_unchanged w w'"
    and r: "retry_operation operation w = (r, w')"
  shows "outside_temp_unchanged w w'"
proof -
  have step: "\<And>w0 v r w'. outside_temp_unchanged w0 v \<Longrightarrow> operation v = (r, w')
                \<Longrightarrow> outside_temp_unchanged w0 w'"
    using op otu_trans by blast
  note m = otu_trans [OF _ otu_attempt_mark] and s = otu_trans [OF _ otu_time_sleep]
  show ?thesis
  proof (cases "operation (attempt_mark 0 w)")
    case (Pair r1 w1)
    have o1: "outside_temp_unchanged w w1"
      by (rule step [OF _ Pair]) simp
    show ?thesis
    proof (cases r1)
      case (Inr a)
      with r Pair o1 show ?thesis by (simp add: retry_unroll)
    next
      case (Inl e1)
      show ?thesis
      proof (cases "operation (attempt_mark 1 (time_sleep 1 w1))")
        case p2: (Pair r2 w2)
        have o2: "outside_temp_unchanged w w2"
          by (rule step [OF _ p2]) (rule m, rule s, rule o1)
        show ?thesis
        proof (cases r2)
          case (Inr a)
          with r Pair Inl p2 o2 show ?thesis
            by (simp only: retry_unroll prod.case sum.case) simp
        next
          case i2: (Inl e2)
          show ?thesis
          proof (cases "operation (attempt_mark 2 (time_sleep 2 w2))")
            case p3: (Pair r3 w3)
            have o3: "outside_temp_unchanged w w3"
              by (rule step [OF _ p3]) (rule m, rule s, rule o2)
            from r Pair Inl p2 i2 p3 o3 show ?thesis
              by (simp only: retry_unroll prod.case sum.case) (auto split: sum.splits)
          qed
        qed
      qed
    qed
  qed
qed

subsection \<open>The last attempt of a retry\<close>

lemma files_attempt_mark [simp]: "files (attempt_mark i w) = files w"
  by (simp add: attempt_mark_def)

lemma files_time_sleep [simp]: "files (time_sleep d w) = files w"
  by (simp add: time_sleep_def)

lemma retry_last_attempt:
  assumes keeps: "\<And>v e v'. operation v = (Inl e, v') \<Longrightarrow> files v' = files v"
    and r: "retry_operation operation w = (r, w')"
  shows "\<exists>v r0. files v = files w \<and> operation v = (r0, w') \<and>
           r = (case r0 of Inl e \<Rightarrow> Inl e | Inr x \<Rightarrow> Inr (Some x))"
proof (cases "operation (attempt_mark 0 w)")
  case (Pair r1 w1)
  show ?thesis
  proof (cases r1)
    case (Inr a)
    with r Pair show ?thesis
      by (intro exI [of _ "attempt_mark 0 w"] exI [of _ r1]) (simp add: retry_unroll)
  next
    case (Inl e1)
    have f1: "files w1 = files w"
      using keeps Pair Inl by fastforce
    show ?thesis
    proof (cases "operation (attempt_mark 1 (time_sleep 1 w1))")
      case p2: (Pair r2 w2)
      show ?thesis
      proof (cases r2)
        case (Inr a)
        with r Pair Inl p2 f1 show ?thesis
          by (intro exI [of _ "attempt_mark 1 (time_sleep 1 w1)"] exI [of _ r2])
             (simp only: retry_unroll prod.case sum.case, simp)
      next
        case i2: (Inl e2)
        have f2: "files w2 = files w"
          using keeps p2 i2 f1 by fastforce
        show ?thesis
        proof (cases "operation (attempt_mark 2 (time_sleep 2 w2))")
          case p3: (Pair r3 w3)
          from r Pair Inl p2 i2 p3 f2 show ?thesis
            by (intro exI [of _ "attempt_mark 2 (time_sleep 2 w2)"] exI [of _ r3])
               (simp only: retry_unroll prod.case sum.case, auto split: sum.splits)
        qed
      qed
    qed
  qed
qed

lemma retry_write_files:
  assumes "retry_operation (fs_write p data) w = (r, w')"
  shows "case r of Inl e \<Rightarrow> files w' = files w | Inr u \<Rightarrow> files w' = (files w)(p \<mapsto> data)"
proof -
  have k: "\<And>v e v'. fs_write p data v = (Inl e, v') \<Longrightarrow> files v' = files v"
    by (drule fs_write_files) simp
  have "\<exists>v r0. files v = files w \<and> fs_write p data v = (r0, w') \<and>
           r = (case r0 of Inl e \<Rightarrow> Inl e | Inr x \<Rightarrow> Inr (Some x))"
    using assms by (rule retry_last_attempt [rotated]) (rule k)
  then obtain v r0 where
    v: "files v = files w" "fs_write p data v = (r0, w')"
      "r = (case r0 of Inl e \<Rightarrow> Inl e | Inr x \<Rightarrow> Inr (Some x))"
    by blast
  from fs_write_files [OF v(2)] v(1,3) show ?thesis
    by (cases r0) simp_all
qed

lemma retry_move_files:
  assumes "retry_operation (fs_move src dst) w = (r, w')"
  shows "case r of
           Inl e \<Rightarrow> files w' = files w
         | Inr u \<Rightarrow> (\<exists>data. files w src = Some data \<and>
                           files w' = ((files w)(src := None))(dst \<mapsto> data))"
proof -
  have k: "\<And>v e v'. fs_move src dst v = (Inl e, v') \<Longrightarrow> files v' = files v"
    by (drule fs_move_files) simp
  have "\<exists>v r0. files v = files w \<and> fs_move src dst v = (r0, w') \<and>
           r = (case r0 of Inl e \<Rightarrow> Inl e | Inr x \<Rightarrow> Inr (Some x))"
    using assms by (rule retry_last_attempt [rotated]) (rule k)
  then obtain v r0 where
    v: "files v = files w" "fs_move src dst v = (r0, w')"
      "r = (case r0 of Inl e \<Rightarrow> Inl e | Inr x \<Rightarrow> Inr (Some x))"
    by blast
  from fs_move_files [OF v(2)] v(1,3) show ?thesis
    by (cases r0) simp_all
qed

subsection \<open>Staging\<close>

lemma save_formatted_files:
  assumes "save_formatted content content_type d b w = (r, w')"
  shows "case r of
           Inl e \<Rightarrow> files w' = files w
         | Inr p \<Rightarrow> p = (d, b @ formatted_ext content_type) \<and>
                    (\<exists>t. files w' = (files w)(p \<mapsto> TextFile t))"
proof (cases "apply_formatter content content_type")
  case (Inl e)
  with assms show ?thesis by (auto simp: save_formatted_def)
next
  case (Inr t)
  let ?p = "(d, b @ formatted_ext content_type)"
  obtain r1 w1 where m: "fs_mkdir d w = (r1, w1)"
    by (cases "fs_mkdir d w")
  note f1 = fs_mkdir_files [OF m]
  show ?thesis
  proof (cases r1)
    case (Inl e)
    with assms Inr m f1 show ?thesis
      by (auto simp: save_formatted_def Let_def formatted_ext_def)
  next
    case u: (Inr u)
    obtain r2 w2 where wr: "retry_operation (fs_write ?p (TextFile t)) w1 = (r2, w2)"
      by (cases "retry_operation (fs_write ?p (TextFile t)) w1")
    from retry_write_files [OF wr] assms Inr m u f1 wr show ?thesis
      by (cases r2) (auto simp: save_formatted_def Let_def formatted_ext_def)
  qed
qed

lemma artifacts_dict:
  "dict_set (dict_set (dict_set [] ''json'' (d, b @ ''.json''))
      ''formatted'' (d, b @ formatted_ext k)) ''metadata'' (d, b @ ''_meta.yaml'')
   = artifacts d b k"
  by (simp add: artifacts_def)

text \<open>What \<open>_save_all_formats\<close> leaves: on success the three staged files, the JSON file
  holding the document of the record; on failure nothing outside the directory.\<close>

lemma save_all_formats_files:
  assumes "save_all_formats content content_type d b w = (r, w')"
  shows "case r of
           Inl e \<Rightarrow> (\<forall>p. fst p \<noteq> d \<longrightarrow> files w' p = files w p)
         | Inr tp \<Rightarrow>
             tp = artifacts d b content_type \<and>
             (\<exists>t md. files w' =
                (files w)((d, b @ ''.json'') \<mapsto> JsonFile (json_doc content),
                          (d, b @ formatted_ext content_type) \<mapsto> TextFile t,
                          (d, b @ ''_meta.yaml'') \<mapsto> YamlFile md))"
proof -
  let ?j = "(d, b @ ''.json'')" and ?y = "(d, b @ ''_meta.yaml'')"
  obtain r1 w1 where s1: "retry_operation (save_json content ?j) w = (r1, w1)"
    by (cases "retry_operation (save_json content ?j) w")
  have s1': "retry_operation (fs_write ?j (JsonFile (json_doc content))) w = (r1, w1)"
    using s1 by (simp add: save_json_def [abs_def])
  note f1 = retry_write_files [OF s1']
  show ?thesis
  proof (cases r1)
    case (Inl e)
    with assms s1 f1 show ?thesis
      by (auto simp: save_all_formats_def Let_def)
  next
    case i1: (Inr u1)
    obtain r2 w2 where s2: "save_formatted content content_type d b w1 = (r2, w2)"
      by (cases "save_formatted content content_type d b w1")
    note f2 = save_formatted_files [OF s2]
    show ?thesis
    proof (cases r2)
      case (Inl e)
      with assms s1 i1 f1 s2 f2 show ?thesis
        by (auto simp: save_all_formats_def Let_def)
    next
      case i2: (Inr fp)
      show ?thesis
      proof (cases "py_get content ''metadata'' (PDict [])")
        case (Inl e)
        with assms s1 i1 f1 s2 i2 f2 show ?thesis
          by (auto simp: save_all_formats_def Let_def)
      next
        case i3: (Inr md)
        obtain r4 w4 where s4: "retry_operation (save_yaml md ?y) w2 = (r4, w4)"
          by (cases "retry_operation (save_yaml md ?y) w2")
        have s4': "retry_operation (fs_write ?y (YamlFile md)) w2 = (r4, w4)"
          using s4 by (simp add: save_yaml_def [abs_def])
        note f4 = retry_write_files [OF s4']
        show ?thesis
        proof (cases r4)
          case (Inl e)
          with assms s1 i1 f1 s2 i2 f2 i3 s4 f4 show ?thesis
            by (auto simp: save_all_formats_def Let_def)
        next
          case i4: (Inr u4)
          with assms s1 i1 f1 s2 i2 f2 i3 s4 f4 show ?thesis
            by (auto simp: save_all_formats_def Let_def artifacts_def) (rule exI, rule exI, rule refl)
        qed
      qed
    qed
  qed
qed

lemma verify_saved_files_files:
  "verify_saved_files tp checksum w = (r, w') \<Longrightarrow> files w' = files w"
proof (induction tp checksum w rule: verify_saved_files.induct)
  case (1 checksum w)
  then show ?case by simp
next
  case (2 path_type p rest checksum w)
  show ?case
  proof (cases "path_type = ''json'' \<and> path_exists p w")
    case False
    with 2 show ?thesis by (auto split: if_splits)
  next
    case True
    obtain r1 w1 where rd: "fs_read p w = (r1, w1)"
      by (cases "fs_read p w")
    note f = fs_read_files [OF rd]
    from 2 True rd f show ?thesis
      by (auto split: sum.splits if_splits)
  qed
qed

end
